theory Spec2Isabelle
  imports Complex_Main "HOL-Library.AList"
begin

section \<open>Conventions of the embedding\<close>

text \<open>
  The TypeScript sources are embedded shallowly.  A JavaScript string is a \<^typ>\<open>string\<close>
  (a list of code units; the model covers the code units below 256).  The integers the
  program computes with (millisecond clock readings, lengths, counts) are
  \<^typ>\<open>int\<close> or \<^typ>\<open>nat\<close>; a progress value is any JavaScript number.  \<open>Date.now()\<close> is an input: every function that reads the clock
  takes the reading as a parameter.  The console is part of the progress manager's
  state: every \<open>console.log\<close> and \<open>console.warn\<close> there appends one line to it.
\<close>

text \<open>
  A JavaScript \<open>number\<close> as far as comparing and clamping go: \<open>NaN\<close>, the two infinities
  and the finite values (the two zeros are one value here).  \<open>number_le a b\<close> is \<open>a <= b\<close>,
  false whenever an operand is \<open>NaN\<close>; \<open>Math.min\<close> and \<open>Math.max\<close> of two arguments give \<open>NaN\<close>
  whenever an argument is \<open>NaN\<close>.
\<close>

datatype number = NaN | MinusInfinity | Finite real | PlusInfinity

fun number_le :: "number \<Rightarrow> number \<Rightarrow> bool" where
  "number_le NaN y = False"
| "number_le x NaN = False"
| "number_le MinusInfinity y = True"
| "number_le x PlusInfinity = True"
| "number_le (Finite x) (Finite y) = (x \<le> y)"
| "number_le x y = False"

definition Math_min :: "number \<Rightarrow> number \<Rightarrow> number" where
  "Math_min a b = (if a = NaN \<or> b = NaN then NaN else if number_le a b then a else b)"

definition Math_max :: "number \<Rightarrow> number \<Rightarrow> number" where
  "Math_max a b = (if a = NaN \<or> b = NaN then NaN else if number_le a b then b else a)"

text \<open>
  A console line is a text, or a text with a number spliced in by a template literal
  (the text before it, the number, the text after it).
\<close>

datatype console_line = Log string | Warn string | LogNumber string number string

text \<open>Template literals print numbers in decimal, as \<open>String(n)\<close> does for integers.\<close>

definition digit :: "nat \<Rightarrow> char" where
  "digit d = char_of (48 + d)"

fun string_of_nat :: "nat \<Rightarrow> string" where
  "string_of_nat n = (if n < 10 then [digit n] else string_of_nat (n div 10) @ [digit (n mod 10)])"

section \<open>Progress manager (services/progressManager.ts)\<close>

record ProgressState =
  progress :: number
  status :: string
  phase :: string
  createdAt :: int

text \<open>
  The class holds a \<open>Map<string, ProgressState>\<close>.  A JavaScript \<open>Map\<close> iterates in insertion
  order and \<open>set\<close> on a present key keeps the key's place: an association list with
  \<^const>\<open>AList.update\<close>, \<^const>\<open>map_of\<close> and \<^const>\<open>AList.delete\<close>.  The interval timer is not
  part of the state: a sweep tick is a call of \<open>cleanupOldJobs\<close> with the clock reading of
  the tick.
\<close>

record ProgressManager =
  jobs :: "(string \<times> ProgressState) list"
  console :: "console_line list"

definition CLEANUP_AFTER_MS :: int where
  "CLEANUP_AFTER_MS = 5 * 60 * 1000"

definition CLEANUP_CHECK_INTERVAL_MS :: int where
  "CLEANUP_CHECK_INTERVAL_MS = 60 * 1000"

definition newProgressManager :: ProgressManager where
  "newProgressManager = \<lparr>jobs = [], console = []\<rparr>"

definition createJob :: "string \<Rightarrow> int \<Rightarrow> ProgressManager \<Rightarrow> ProgressManager" where
  "createJob jobId now m =
     m\<lparr>jobs := AList.update jobId
                 \<lparr>progress = Finite 0, status = ''Starting...'', phase = ''init'', createdAt = now\<rparr>
                 (jobs m),
       console := console m @ [Log (''[ProgressManager] Created job: '' @ jobId)]\<rparr>"

definition updateProgress ::
  "string \<Rightarrow> number \<Rightarrow> string \<Rightarrow> string \<Rightarrow> ProgressManager \<Rightarrow> ProgressManager" where
  "updateProgress jobId p st ph m =
     (case map_of (jobs m) jobId of
        None \<Rightarrow> m\<lparr>console := console m @ [Warn (''[ProgressManager] Job not found: '' @ jobId)]\<rparr>
      | Some job \<Rightarrow>
          (let newProgress = Math_max (progress job) (Math_min (Finite 100) p)
           in m\<lparr>jobs := AList.update jobId
                            \<lparr>progress = newProgress, status = st, phase = ph,
                             createdAt = createdAt job\<rparr>
                            (jobs m),
                 console := console m @
                   [LogNumber (''[ProgressManager] Updated job '' @ jobId @ '': '')
                      newProgress (''% - '' @ st)]\<rparr>))"

definition getProgress :: "string \<Rightarrow> ProgressManager \<Rightarrow> ProgressState option" where
  "getProgress jobId m = map_of (jobs m) jobId"

definition completeJob :: "string \<Rightarrow> ProgressManager \<Rightarrow> ProgressManager" where
  "completeJob jobId m =
     (case map_of (jobs m) jobId of
        None \<Rightarrow> m\<lparr>console := console m @
                   [Warn (''[ProgressManager] Cannot complete - job not found: '' @ jobId)]\<rparr>
      | Some job \<Rightarrow>
          m\<lparr>jobs := AList.update jobId
                      \<lparr>progress = Finite 100, status = ''Ready'', phase = ''complete'',
                       createdAt = createdAt job\<rparr>
                      (jobs m),
            console := console m @ [Log (''[ProgressManager] Completed job: '' @ jobId)]\<rparr>)"

definition removeJob :: "string \<Rightarrow> ProgressManager \<Rightarrow> ProgressManager" where
  "removeJob jobId m =
     (if map_of (jobs m) jobId \<noteq> None
      then m\<lparr>jobs := AList.delete jobId (jobs m),
             console := console m @ [Log (''[ProgressManager] Removed job: '' @ jobId)]\<rparr>
      else m)"

text \<open>
  The loop of \<open>cleanupOldJobs\<close> visits every entry of the map once, deletes the entry it
  is at when the job is too old, and counts the deletions.
\<close>

fun cleanupLoop ::
  "int \<Rightarrow> (string \<times> ProgressState) list \<Rightarrow> (string \<times> ProgressState) list \<times> nat \<Rightarrow>
   (string \<times> ProgressState) list \<times> nat" where
  "cleanupLoop now [] acc = acc"
| "cleanupLoop now ((jobId, job) # rest) (js, cleanedCount) =
     (if now - createdAt job > CLEANUP_AFTER_MS
      then cleanupLoop now rest (AList.delete jobId js, cleanedCount + 1)
      else cleanupLoop now rest (js, cleanedCount))"

definition cleanupOldJobs :: "int \<Rightarrow> ProgressManager \<Rightarrow> ProgressManager" where
  "cleanupOldJobs now m =
     (case cleanupLoop now (jobs m) (jobs m, 0) of
        (js, cleanedCount) \<Rightarrow>
          m\<lparr>jobs := js,
            console := console m @
              (if cleanedCount > 0
               then [Log (''[ProgressManager] Cleaned up '' @ string_of_nat cleanedCount @
                          '' old job(s)'')]
               else [])\<rparr>)"

definition getActiveJobCount :: "ProgressManager \<Rightarrow> nat" where
  "getActiveJobCount m = length (jobs m)"

text \<open>
  A run of the manager: calls in the order they are made, each with the clock reading at
  which it is made.  \<open>updateProgress\<close> does not read the clock.
\<close>

datatype call =
    CreateJob string
  | UpdateProgress string number string string
  | CompleteJob string
  | RemoveJob string
  | SweepTick

fun exec :: "int \<times> call \<Rightarrow> ProgressManager \<Rightarrow> ProgressManager" where
  "exec (now, CreateJob jobId) m = createJob jobId now m"
| "exec (now, UpdateProgress jobId p st ph) m = updateProgress jobId p st ph m"
| "exec (now, CompleteJob jobId) m = completeJob jobId m"
| "exec (now, RemoveJob jobId) m = removeJob jobId m"
| "exec (now, SweepTick) m = cleanupOldJobs now m"

fun run :: "(int \<times> call) list \<Rightarrow> ProgressManager \<Rightarrow> ProgressManager" where
  "run [] m = m"
| "run (c # cs) m = run cs (exec c m)"

text \<open>
  What the specification calls touching a job (creating it, or updating it with
  \<open>updateProgress\<close>), and the clock reading of the last such call in a run; likewise the
  reading of the last \<open>createJob\<close>.
\<close>

fun touches :: "string \<Rightarrow> call \<Rightarrow> bool" where
  "touches k (CreateJob jobId) = (jobId = k)"
| "touches k (UpdateProgress jobId p st ph) = (jobId = k)"
| "touches k c = False"

fun lastTouched :: "string \<Rightarrow> (int \<times> call) list \<Rightarrow> int option" where
  "lastTouched k [] = None"
| "lastTouched k ((t, c) # cs) =
     (case lastTouched k cs of
        Some t' \<Rightarrow> Some t'
      | None \<Rightarrow> if touches k c then Some t else None)"

fun lastCreated :: "string \<Rightarrow> (int \<times> call) list \<Rightarrow> int option" where
  "lastCreated k [] = None"
| "lastCreated k ((t, c) # cs) =
     (case lastCreated k cs of
        Some t' \<Rightarrow> Some t'
      | None \<Rightarrow> if c = CreateJob k then Some t else None)"

text \<open>The keys of the map are pairwise different.\<close>

definition jobsDistinct :: "ProgressManager \<Rightarrow> bool" where
  "jobsDistinct m = distinct (map fst (jobs m))"

text \<open>A sequence of \<open>updateProgress\<close> calls, each with its own arguments.\<close>

fun updateProgressCalls ::
  "(string \<times> number \<times> string \<times> string) list \<Rightarrow> ProgressManager \<Rightarrow> ProgressManager" where
  "updateProgressCalls [] m = m"
| "updateProgressCalls ((jobId, p, st, ph) # cs) m =
     updateProgressCalls cs (updateProgress jobId p st ph m)"

section \<open>JavaScript values\<close>

text \<open>
  Values whose static type is \<open>unknown\<close> or that come from a parsed JSON document (a request
  body, a collaborator's answer): \<open>undefined\<close>, \<open>null\<close>, booleans, numbers, strings, arrays
  and plain objects.  An object is the list of its own properties.
\<close>

datatype jsval =
    JUndefined
  | JNull
  | JBool bool
  | JNum real
  | JStr string
  | JArr "jsval list"
  | JObj "(string \<times> jsval) list"

fun typeof :: "jsval \<Rightarrow> string" where
  "typeof JUndefined = ''undefined''"
| "typeof JNull = ''object''"
| "typeof (JBool b) = ''boolean''"
| "typeof (JNum x) = ''number''"
| "typeof (JStr s) = ''string''"
| "typeof (JArr vs) = ''object''"
| "typeof (JObj kvs) = ''object''"

text \<open>\<open>!v\<close> is \<open>\<not> truthy v\<close>.\<close>

fun truthy :: "jsval \<Rightarrow> bool" where
  "truthy JUndefined = False"
| "truthy JNull = False"
| "truthy (JBool b) = b"
| "truthy (JNum x) = (x \<noteq> 0)"
| "truthy (JStr s) = (s \<noteq> [])"
| "truthy (JArr vs) = True"
| "truthy (JObj kvs) = True"

text \<open>
  \<open>v.k\<close> for a value that is neither \<open>undefined\<close> nor \<open>null\<close> and a property name \<open>k\<close> that
  no prototype defines (all the names read in this program are such): the own property
  of an object, \<open>undefined\<close> otherwise.
\<close>

fun getProp :: "jsval \<Rightarrow> string \<Rightarrow> jsval" where
  "getProp (JObj kvs) k = (case map_of kvs k of Some v \<Rightarrow> v | None \<Rightarrow> JUndefined)"
| "getProp v k = JUndefined"

section \<open>Density configuration (config/density.ts)\<close>

datatype DensityLevel = Low | Medium | High

record DirectSourcesPerBlock =
  min_sources :: nat
  target :: nat
  max_sources :: nat

record SecondarySources =
  topSourcesToProcess :: nat
  conceptsPerSource :: nat
  maxTotalConcepts :: nat

record SemanticEdges =
  minSimilarity :: real
  topK :: nat
  maxEdges :: nat

record DensityConfig =
  exaNumResults :: nat
  directSourcesPerBlock :: DirectSourcesPerBlock
  secondarySources :: SecondarySources
  semanticEdges :: SemanticEdges

fun DENSITY_PRESETS :: "DensityLevel \<Rightarrow> DensityConfig" where
  "DENSITY_PRESETS Low =
     \<lparr>exaNumResults = 6,
      directSourcesPerBlock = \<lparr>min_sources = 1, target = 2, max_sources = 4\<rparr>,
      secondarySources = \<lparr>topSourcesToProcess = 3, conceptsPerSource = 2, maxTotalConcepts = 15\<rparr>,
      semanticEdges = \<lparr>minSimilarity = 0.65, topK = 4, maxEdges = 40\<rparr>\<rparr>"
| "DENSITY_PRESETS Medium =
     \<lparr>exaNumResults = 10,
      directSourcesPerBlock = \<lparr>min_sources = 1, target = 4, max_sources = 6\<rparr>,
      secondarySources = \<lparr>topSourcesToProcess = 5, conceptsPerSource = 3, maxTotalConcepts = 30\<rparr>,
      semanticEdges = \<lparr>minSimilarity = 0.60, topK = 6, maxEdges = 80\<rparr>\<rparr>"
| "DENSITY_PRESETS High =
     \<lparr>exaNumResults = 12,
      directSourcesPerBlock = \<lparr>min_sources = 1, target = 5, max_sources = 8\<rparr>,
      secondarySources = \<lparr>topSourcesToProcess = 8, conceptsPerSource = 4, maxTotalConcepts = 40\<rparr>,
      semanticEdges = \<lparr>minSimilarity = 0.55, topK = 8, maxEdges = 120\<rparr>\<rparr>"

definition DEFAULT_DENSITY :: DensityLevel where
  "DEFAULT_DENSITY = Medium"

text \<open>The parameter has a default: \<^const>\<open>None\<close> is the call without a level (or with \<open>undefined\<close>).\<close>

definition getDensityConfig :: "DensityLevel option \<Rightarrow> DensityConfig" where
  "getDensityConfig level =
     DENSITY_PRESETS (case level of None \<Rightarrow> DEFAULT_DENSITY | Some l \<Rightarrow> l)"

text \<open>\<open>validateDensityLevel\<close> of routes/expandSourceRoute.ts turns any value into a level.\<close>

text \<open>
  The cast \<open>level as DensityLevel\<close>; the code applies it only to a string that is one of
  the three names.
\<close>

definition asDensityLevel :: "string \<Rightarrow> DensityLevel" where
  "asDensityLevel s = (if s = ''low'' then Low else if s = ''medium'' then Medium else High)"

definition validateDensityLevel :: "jsval \<Rightarrow> DensityLevel" where
  "validateDensityLevel level =
     (case level of
        JStr s \<Rightarrow>
          if typeof level = ''string'' \<and> s \<in> set [''low'', ''medium'', ''high'']
          then asDensityLevel s
          else DEFAULT_DENSITY
      | _ \<Rightarrow> DEFAULT_DENSITY)"

subsection \<open>Strings and the regular expressions of \<open>inferDensityLevel\<close>\<close>

text \<open>
  White space, as \<open>trim\<close> and the class \<open>\s\<close> have it, among the code units below 256:
  tab, line feed, vertical tab, form feed, carriage return, space, no-break space.
\<close>

definition isWhiteSpace :: "char \<Rightarrow> bool" where
  "isWhiteSpace c =
     (let n = (of_char c :: nat) in (9 \<le> n \<and> n \<le> 13) \<or> n = 32 \<or> n = 160)"

definition trim :: "string \<Rightarrow> string" where
  "trim s = rev (dropWhile isWhiteSpace (rev (dropWhile isWhiteSpace s)))"

text \<open>
  \<open>s.split(/\s+/)\<close>: the pieces between the maximal runs of white space.  A run at the
  start or at the end gives an empty piece there, and the empty string gives one empty
  piece.  \<open>inSep\<close> says that the scan is inside a run; \<open>cur\<close> is the piece being read.
\<close>

fun splitScan :: "bool \<Rightarrow> string \<Rightarrow> string \<Rightarrow> string list" where
  "splitScan inSep cur [] = [cur]"
| "splitScan inSep cur (c # cs) =
     (if isWhiteSpace c
      then (if inSep then splitScan True cur cs else cur # splitScan True [] cs)
      else splitScan False (cur @ [c]) cs)"

definition splitWhiteSpace :: "string \<Rightarrow> string list" where
  "splitWhiteSpace s = splitScan False [] s"

text \<open>The class \<open>\w\<close>: ASCII letters, digits and the underscore.\<close>

definition isWordChar :: "char \<Rightarrow> bool" where
  "isWordChar c =
     (let n = (of_char c :: nat)
      in (48 \<le> n \<and> n \<le> 57) \<or> (65 \<le> n \<and> n \<le> 90) \<or> n = 95 \<or> (97 \<le> n \<and> n \<le> 122))"

text \<open>
  \<open>\b\<close> holds between two neighbouring places exactly when one of them is a word
  character and the other is not; the places before the start and after the end of the
  string (\<^const>\<open>None\<close>) count as not word characters.
\<close>

definition wordBoundary :: "char option \<Rightarrow> char option \<Rightarrow> bool" where
  "wordBoundary left right =
     ((case left of None \<Rightarrow> False | Some c \<Rightarrow> isWordChar c) \<noteq>
      (case right of None \<Rightarrow> False | Some c \<Rightarrow> isWordChar c))"

text \<open>
  The flag \<open>i\<close> compares canonicalised code units.  The patterns are ASCII, and a code
  unit that is not ASCII never canonicalises to an ASCII one, so that folding the ASCII
  lower-case letters is all that matters.
\<close>

definition canonicalize :: "char \<Rightarrow> char" where
  "canonicalize c =
     (let n = (of_char c :: nat) in if 97 \<le> n \<and> n \<le> 122 then char_of (n - 32) else c)"

text \<open>
  Matching a literal at the head of the input, ignoring case: the last code unit matched
  and the rest of the input, or \<^const>\<open>None\<close>.
\<close>

fun matchLiteral :: "string \<Rightarrow> char option \<Rightarrow> string \<Rightarrow> (char option \<times> string) option" where
  "matchLiteral [] lastc s = Some (lastc, s)"
| "matchLiteral (p # ps) lastc [] = None"
| "matchLiteral (p # ps) lastc (c # cs) =
     (if canonicalize p = canonicalize c then matchLiteral ps (Some c) cs else None)"

text \<open>
  \<open>/\b(a1|a2|...)\b/i\<close> matched at one place: \<open>left\<close> is the code unit in front of the
  place, \<open>s\<close> the input from the place on.
\<close>

definition matchHere :: "string list \<Rightarrow> char option \<Rightarrow> string \<Rightarrow> bool" where
  "matchHere alts left s =
     (wordBoundary left (case s of [] \<Rightarrow> None | c # cs \<Rightarrow> Some c) \<and>
      list_ex (\<lambda>alt. case matchLiteral alt left s of
                       None \<Rightarrow> False
                     | Some (lastc, rest) \<Rightarrow>
                         wordBoundary lastc (case rest of [] \<Rightarrow> None | c # cs \<Rightarrow> Some c))
              alts)"

text \<open>\<open>test\<close> tries every place from left to right.\<close>

fun testFrom :: "string list \<Rightarrow> char option \<Rightarrow> string \<Rightarrow> bool" where
  "testFrom alts left [] = matchHere alts left []"
| "testFrom alts left (c # cs) =
     (matchHere alts left (c # cs) \<or> testFrom alts (Some c) cs)"

definition regexTest :: "string list \<Rightarrow> string \<Rightarrow> bool" where
  "regexTest alts s = testFrom alts None s"

subsection \<open>\<open>inferDensityLevel\<close>\<close>

definition questionWords :: "string \<Rightarrow> nat" where
  "questionWords question = length (splitWhiteSpace (trim question))"

definition questionMarks :: "string \<Rightarrow> nat" where
  "questionMarks question = length (filter (\<lambda>c. c = CHR ''?'') question)"

definition hasMultiPartIndicators :: "string \<Rightarrow> bool" where
  "hasMultiPartIndicators question =
     regexTest [''and'', ''or'', ''also'', ''additionally'', ''furthermore'', ''moreover''] question"

definition hasListIndicators :: "string \<Rightarrow> bool" where
  "hasListIndicators question =
     regexTest [''list'', ''enumerate'', ''what are'', ''types of'', ''kinds of'', ''examples of'']
       question"

text \<open>
  The body assigns to \<open>score\<close> step by step; each \<open>let\<close> below is one of the source's
  statements.  \<open>answerBlockCount\<close> is optional: \<^const>\<open>None\<close> is \<open>undefined\<close>.
\<close>

definition inferDensityLevel :: "string \<Rightarrow> int option \<Rightarrow> DensityLevel" where
  "inferDensityLevel question answerBlockCount =
     (let score = (0 :: int);
          score = (if questionWords question > 20 then score + 2
                   else if questionWords question > 10 then score + 1 else score);
          score = (if questionMarks question > 1 then score + 2 else score);
          score = (if hasMultiPartIndicators question then score + 1 else score);
          score = (if hasListIndicators question then score + 1 else score);
          score = (case answerBlockCount of
                     None \<Rightarrow> score
                   | Some n \<Rightarrow> if n \<ge> 6 then score + 2 else if n \<ge> 4 then score + 1 else score)
      in if score \<ge> 4 then High else if score \<ge> 2 then Medium else Low)"

text \<open>The score as the specification words it: a sum of independent contributions.\<close>

definition spec_score :: "string \<Rightarrow> int option \<Rightarrow> int" where
  "spec_score question answerBlockCount =
     (if questionWords question > 20 then 2 else if questionWords question > 10 then 1 else 0) +
     (if questionMarks question > 1 then 2 else 0) +
     (if hasMultiPartIndicators question then 1 else 0) +
     (if hasListIndicators question then 1 else 0) +
     (case answerBlockCount of
        None \<Rightarrow> 0
      | Some n \<Rightarrow> if n \<ge> 6 then 2 else if n \<ge> 4 then 1 else 0)"

section \<open>Concept extraction from one source (services/expandSourceAgent.ts)\<close>

text \<open>
  The console output of this module and of the route is not modelled.  A thrown value is
  either an \<open>Error\<close> with its message or something else; a function that can throw
  returns a sum with the thrown value on the left.
\<close>

datatype thrown = Err string | OtherThrown

record ExpandedConcept =
  concept_title :: string
  concept_text :: string
  short_label :: string
  importance :: "real option"

record SourceInput =
  title :: string
  url :: string
  content :: string

text \<open>Reading a value whose \<open>typeof\<close> has been checked.\<close>

fun asString :: "jsval \<Rightarrow> string" where
  "asString (JStr s) = s"
| "asString v = []"

fun asNumber :: "jsval \<Rightarrow> real" where
  "asNumber (JNum x) = x"
| "asNumber v = 0"

text \<open>
  The loop of \<open>validateConceptsResponse\<close> over \<open>payload.concepts\<close>: two guards that
  \<open>continue\<close>, then a \<open>push\<close> onto \<open>concepts\<close>.
\<close>

fun validateLoop :: "jsval list \<Rightarrow> ExpandedConcept list \<Rightarrow> ExpandedConcept list" where
  "validateLoop [] concepts = concepts"
| "validateLoop (concept # rest) concepts =
     (if \<not> truthy concept \<or> typeof concept \<noteq> ''object''
      then validateLoop rest concepts
      else if typeof (getProp concept ''title'') \<noteq> ''string'' \<or>
              typeof (getProp concept ''text'') \<noteq> ''string''
      then validateLoop rest concepts
      else
        (let short_label_v =
               (if typeof (getProp concept ''short_label'') = ''string''
                then asString (getProp concept ''short_label'')
                else asString (getProp concept ''title''));
             importance_v =
               (if typeof (getProp concept ''importance'') = ''number''
                then Some (asNumber (getProp concept ''importance''))
                else None)
         in validateLoop rest
              (concepts @
               [\<lparr>concept_title = asString (getProp concept ''title''),
                 concept_text = asString (getProp concept ''text''),
                 short_label = short_label_v,
                 importance = importance_v\<rparr>])))"

definition validateConceptsResponse :: "jsval \<Rightarrow> thrown + ExpandedConcept list" where
  "validateConceptsResponse response =
     (if \<not> truthy response \<or> typeof response \<noteq> ''object''
      then Inl (Err ''Invalid response: not an object'')
      else
        (case getProp response ''concepts'' of
           JArr cs \<Rightarrow> Inr (validateLoop cs [])
         | _ \<Rightarrow> Inl (Err ''Invalid response: concepts is not an array'')))"

text \<open>
  What the loop does to one element, read off element by element: whether the element
  is kept, and the concept it becomes.
\<close>

definition keptElement :: "jsval \<Rightarrow> bool" where
  "keptElement c =
     (truthy c \<and> typeof c = ''object'' \<and> typeof (getProp c ''title'') = ''string'' \<and>
      typeof (getProp c ''text'') = ''string'')"

definition toConcept :: "jsval \<Rightarrow> ExpandedConcept" where
  "toConcept c =
     \<lparr>concept_title = asString (getProp c ''title''),
      concept_text = asString (getProp c ''text''),
      short_label =
        (if typeof (getProp c ''short_label'') = ''string''
         then asString (getProp c ''short_label'')
         else asString (getProp c ''title'')),
      importance =
        (if typeof (getProp c ''importance'') = ''number''
         then Some (asNumber (getProp c ''importance''))
         else None)\<rparr>"

subsection \<open>\<open>truncateContent\<close>\<close>

text \<open>\<open>s.lastIndexOf(c)\<close>: the index of the last occurrence, or \<open>-1\<close>.\<close>

fun lastIndexScan :: "char \<Rightarrow> string \<Rightarrow> nat \<Rightarrow> int \<Rightarrow> int" where
  "lastIndexScan c [] i found = found"
| "lastIndexScan c (x # xs) i found =
     lastIndexScan c xs (i + 1) (if x = c then int i else found)"

definition lastIndexOf :: "char \<Rightarrow> string \<Rightarrow> int" where
  "lastIndexOf c s = lastIndexScan c s 0 (- 1)"

text \<open>
  \<open>maxChars * 0.7\<close> is a product of doubles.  The double nearest to 0.7 is
  \<open>double07 / 2^53\<close>; the product with an integer \<open>maxChars\<close> below \<open>2^53\<close> is the exact
  product rounded to 53 significant bits, ties to even.  \<open>roundToDouble p\<close> rounds the
  integer \<open>p\<close> so, and \<open>exceeds07 lastPeriod maxChars\<close> is the comparison
  \<open>lastPeriod > maxChars * 0.7\<close>, scaled by \<open>2^53\<close>.
\<close>

definition double07 :: nat where
  "double07 = 6305039478318694"

fun bitLength :: "nat \<Rightarrow> nat" where
  "bitLength n = (if n = 0 then 0 else Suc (bitLength (n div 2)))"

declare bitLength.simps [simp del]

definition roundToDouble :: "nat \<Rightarrow> nat" where
  "roundToDouble p =
     (if bitLength p \<le> 53 then p
      else
        (let s = bitLength p - 53;
             q = p div 2 ^ s;
             r = p mod 2 ^ s;
             half = 2 ^ (s - 1)
         in (if r > half \<or> (r = half \<and> odd q) then q + 1 else q) * 2 ^ s))"

definition exceeds07 :: "int \<Rightarrow> nat \<Rightarrow> bool" where
  "exceeds07 lastPeriod maxChars =
     (lastPeriod * 2 ^ 53 > int (roundToDouble (maxChars * double07)))"

text \<open>
  \<open>content.substring(0, n)\<close> keeps the first \<open>n\<close> characters (\<^const>\<open>take\<close>).  The bound \<open>maxChars\<close> is a
  number of characters, a natural number (the one call passes 2000).
\<close>

definition truncateContent :: "string \<Rightarrow> nat \<Rightarrow> string" where
  "truncateContent content_v maxChars =
     (if length content_v \<le> maxChars then content_v
      else
        (let truncated = take maxChars content_v;
             lastPeriod = lastIndexOf CHR ''.'' truncated
         in if exceeds07 lastPeriod maxChars
            then take (nat (lastPeriod + 1)) truncated @ '' [...]''
            else truncated @ ''...''))"

subsection \<open>\<open>buildExpandPrompt\<close>\<close>

text \<open>The template literal, cut at the places where values are spliced in.\<close>

definition promptInstructions :: "string \<Rightarrow> string" where
  \<open>promptInstructions count =
     [CHR 0x0A, CHR 0x0A] @ ''Extract '' @ count @ '' supporting concepts from this source that:'' @
     [CHR 0x0A] @ ''- Reveal core ideas, terminology, or themes from the content'' @
     [CHR 0x0A] @ ''- Are distinct and non-overlapping'' @
     [CHR 0x0A] @
     ''- Include an importance score between 0 and 1 (higher = more central to the source)'' @
     [CHR 0x0A, CHR 0x0A] @ ''Return ONLY valid JSON matching this structure:'' @
     [CHR 0x0A] @ ''{'' @
     [CHR 0x0A] @ ''  "concepts": ['' @
     [CHR 0x0A] @ ''    {'' @
     [CHR 0x0A] @ ''      "title": "Concept name (1-5 words)",'' @
     [CHR 0x0A] @ ''      "text": "2-4 sentence explanation of this concept",'' @
     [CHR 0x0A] @ ''      "short_label": "tag (1-3 words for visualization)",'' @
     [CHR 0x0A] @ ''      "importance": 0.85'' @
     [CHR 0x0A] @ ''    }'' @
     [CHR 0x0A] @ ''  ]'' @
     [CHR 0x0A] @ ''}'' @
     [CHR 0x0A, CHR 0x0A] @ ''Provide exactly '' @ count @
     '' concepts. Keep text concise and focused.''\<close>

definition buildExpandPrompt :: "SourceInput \<Rightarrow> nat \<Rightarrow> string" where
  "buildExpandPrompt source conceptCount =
     (let truncatedContent = truncateContent (content source) 2000
      in ''Source Title: '' @ title source @ [CHR 0x0A] @
         ''Source URL: '' @ url source @ [CHR 0x0A, CHR 0x0A] @
         ''Content:'' @ [CHR 0x0A] @
         truncatedContent @
         promptInstructions (string_of_nat conceptCount))"

subsection \<open>\<open>expandSourceAgent\<close>\<close>

text \<open>
  The environment of the module: the configured API key (\<open>config.exaApiKey\<close>, absent or
  a string) and the Exa client.  \<open>exaAnswer prompt\<close> stands for the awaited call
  \<open>exaClient.answer(prompt, ...)\<close> together with the read of \<open>.answer\<close> from its result:
  it throws or gives the value read.  The client object exists exactly when the key is
  truthy.
\<close>

record ExaEnv =
  exaApiKey :: "string option"
  exaAnswer :: "string \<Rightarrow> thrown + jsval"

definition keyConfigured :: "ExaEnv \<Rightarrow> bool" where
  "keyConfigured env = (case exaApiKey env of None \<Rightarrow> False | Some k \<Rightarrow> k \<noteq> [])"

definition errorMessage :: "thrown \<Rightarrow> string" where
  "errorMessage error = (case error of Err msg \<Rightarrow> msg | OtherThrown \<Rightarrow> ''Unknown error'')"

text \<open>
  The result comes with the list of prompts sent to the Exa client, in order: the calls
  of the extraction collaborator.
\<close>

definition expandSourceAgent ::
  "ExaEnv \<Rightarrow> SourceInput \<Rightarrow> DensityLevel option \<Rightarrow> (thrown + ExpandedConcept list) \<times> string list"
  where
  "expandSourceAgent env source densityLevel =
     (if \<not> keyConfigured env then (Inl (Err ''EXA_API_KEY not configured''), [])
      else if \<not> keyConfigured env then (Inl (Err ''Exa client not initialized''), [])
      else if title source = [] \<or> url source = [] \<or> content source = []
      then (Inl (Err ''Source must have title, url, and content''), [])
      else
        (let densityConfig =
               getDensityConfig
                 (Some (case densityLevel of None \<Rightarrow> DEFAULT_DENSITY | Some l \<Rightarrow> l));
             conceptCount = conceptsPerSource (secondarySources densityConfig);
             prompt = buildExpandPrompt source conceptCount;
             attempt =
               (case exaAnswer env prompt of
                  Inl error \<Rightarrow> Inl error
                | Inr answer \<Rightarrow> validateConceptsResponse answer)
         in (case attempt of
               Inl error \<Rightarrow>
                 Inl (Err (''Failed to extract concepts: '' @ errorMessage error))
             | Inr concepts \<Rightarrow> Inr concepts,
             [prompt])))"

section \<open>The route \<open>POST /api/expand/source\<close> (routes/expandSourceRoute.ts)\<close>

record HttpResponse =
  statusCode :: nat
  body :: jsval

definition levelName :: "DensityLevel \<Rightarrow> string" where
  "levelName l = (case l of Low \<Rightarrow> ''low'' | Medium \<Rightarrow> ''medium'' | High \<Rightarrow> ''high'')"

text \<open>A concept as \<open>res.json\<close> sees it; an \<open>undefined\<close> importance stays \<open>undefined\<close>.\<close>

definition conceptJson :: "ExpandedConcept \<Rightarrow> jsval" where
  "conceptJson c =
     JObj [(''title'', JStr (concept_title c)),
           (''text'', JStr (concept_text c)),
           (''short_label'', JStr (short_label c)),
           (''importance'', case importance c of None \<Rightarrow> JUndefined | Some x \<Rightarrow> JNum x)]"

text \<open>
  The \<open>catch\<close> block of the handler: \<open>latencyMs\<close> from the clock reading taken there.
\<close>

definition extractionFailed :: "int \<Rightarrow> int \<Rightarrow> thrown \<Rightarrow> HttpResponse" where
  "extractionFailed requestStart now error =
     (let latencyMs = now - requestStart;
          errorMsg = errorMessage error
      in \<lparr>statusCode = 500,
          body = JObj [(''error'', JStr ''Concept extraction failed''),
                       (''message'', JStr errorMsg),
                       (''meta'', JObj [(''latencyMs'', JNum (of_int latencyMs))])]\<rparr>)"

text \<open>
  \<open>handleExpandSource\<close>.  \<open>requestStart\<close> is the clock reading at entry and \<open>now\<close> the
  reading taken when the answer is built (one of the two later \<open>Date.now()\<close> calls is
  executed, never both); \<open>reqBody\<close> is \<open>req.body\<close>.  Reading a property of \<open>undefined\<close> or
  \<open>null\<close> throws a \<open>TypeError\<close> inside the \<open>try\<close> block (the message is the engine's).  The
  result is the response sent and the prompts sent to the Exa client.
\<close>

definition handleExpandSource ::
  "ExaEnv \<Rightarrow> int \<Rightarrow> int \<Rightarrow> jsval \<Rightarrow> HttpResponse \<times> string list" where
  \<open>handleExpandSource env requestStart now reqBody =
     (if reqBody = JUndefined \<or> reqBody = JNull
      then (extractionFailed requestStart now
              (Err (''Cannot read properties of '' @
                    (if reqBody = JNull then ''null'' else ''undefined'') @
                    '' (reading '' @ [CHR 0x27] @ ''title'' @ [CHR 0x27] @ '')'')), [])
      else if \<not> truthy (getProp reqBody ''title'') \<or>
              typeof (getProp reqBody ''title'') \<noteq> ''string''
      then (\<lparr>statusCode = 400,
             body = JObj [(''error'', JStr ''Missing or invalid "title" field''),
                          (''message'', JStr ''Request must include a string "title" field'')]\<rparr>,
            [])
      else if \<not> truthy (getProp reqBody ''url'') \<or>
              typeof (getProp reqBody ''url'') \<noteq> ''string''
      then (\<lparr>statusCode = 400,
             body = JObj [(''error'', JStr ''Missing or invalid "url" field''),
                          (''message'', JStr ''Request must include a string "url" field'')]\<rparr>,
            [])
      else if \<not> truthy (getProp reqBody ''content'') \<or>
              typeof (getProp reqBody ''content'') \<noteq> ''string''
      then (\<lparr>statusCode = 400,
             body = JObj [(''error'', JStr ''Missing or invalid "content" field''),
                          (''message'',
                           JStr ''Request must include a string "content" field with the source text'')]\<rparr>,
            [])
      else if length (asString (getProp reqBody ''content'')) = 0
      then (\<lparr>statusCode = 400,
             body = JObj [(''error'', JStr ''Empty content''),
                          (''message'', JStr ''The "content" field cannot be empty'')]\<rparr>,
            [])
      else
        (let densityLevel = validateDensityLevel (getProp reqBody ''densityLevel'');
             source = \<lparr>title = asString (getProp reqBody ''title''),
                       url = asString (getProp reqBody ''url''),
                       content = asString (getProp reqBody ''content'')\<rparr>
         in (case expandSourceAgent env source (Some densityLevel) of
               (Inl error, calls) \<Rightarrow> (extractionFailed requestStart now error, calls)
             | (Inr concepts, calls) \<Rightarrow>
                 (let latencyMs = now - requestStart
                  in (\<lparr>statusCode = 200,
                       body = JObj [(''concepts'', JArr (map conceptJson concepts)),
                                    (''meta'',
                                     JObj [(''latencyMs'', JNum (of_int latencyMs)),
                                           (''densityLevel'', JStr (levelName densityLevel)),
                                           (''sourceTitle'', JStr (title source)),
                                           (''sourceUrl'', JStr (url source))])]\<rparr>,
                      calls)))))\<close>

section \<open>Semantic edge builder (services/semanticGraphBuilder.ts)\<close>

text \<open>
  Modelled from the spec: the semantic edge builder and the graph types it emits
  (services/semanticGraphBuilder.ts, types/shared.ts) are not among the sources.  The
  definitions of this section follow section 4.4 and the data model of the
  specification.  Node ids are of any linearly ordered type (strings in the program).
\<close>

datatype Relation = answers | supports | underpins | semantic_related

record 'a Edge =
  edge_from :: 'a
  edge_to :: 'a
  relation :: Relation
  weight :: real

text \<open>
  Modelled from the spec: steps 1 to 3 of the missing builder.  \<open>embeds\<close> says for which
  nodes the embedding call succeeds, and \<open>similarity a b\<close> is the cosine similarity of the
  embeddings of \<open>a\<close> and \<open>b\<close> (the embedding collaborator and the floating-point cosine are
  inputs).  For a node \<open>a\<close>: the other embedded nodes whose similarity reaches
  \<open>minSimilarity\<close>, by descending similarity (ties in input order), cut to \<open>topK\<close>.
\<close>

definition rankedNeighbours ::
  "SemanticEdges \<Rightarrow> ('a \<Rightarrow> 'a \<Rightarrow> real) \<Rightarrow> 'a list \<Rightarrow> 'a \<Rightarrow> ('a \<times> real) list" where
  "rankedNeighbours cfg similarity embedded a =
     take (topK cfg)
       (sort_key (\<lambda>(b, s). - s)
          (filter (\<lambda>(b, s). minSimilarity cfg \<le> s)
             (map (\<lambda>b. (b, similarity a b)) (filter (\<lambda>b. b \<noteq> a) embedded))))"

text \<open>
  Modelled from the spec: step 4 of the missing builder, first half.  Every surviving
  pair becomes an unordered pair, written with the smaller id first.
\<close>

definition canonicalPair :: "'a::linorder \<Rightarrow> 'a \<Rightarrow> 'a \<times> 'a" where
  "canonicalPair a b = (min a b, max a b)"

definition candidatePairs ::
  "SemanticEdges \<Rightarrow> ('a::linorder \<Rightarrow> 'a \<Rightarrow> real) \<Rightarrow> 'a list \<Rightarrow> (('a \<times> 'a) \<times> real) list"
  where
  "candidatePairs cfg similarity embedded =
     concat (map (\<lambda>a. map (\<lambda>(b, s). (canonicalPair a b, s))
                          (rankedNeighbours cfg similarity embedded a))
                 embedded)"

text \<open>
  Modelled from the spec: step 4 of the missing builder, second half.  One entry per
  unordered pair; when a pair comes again, the higher similarity is kept.
\<close>

fun addCandidate ::
  "(('a \<times> 'a) \<times> real) list \<Rightarrow> ('a \<times> 'a) \<times> real \<Rightarrow> (('a \<times> 'a) \<times> real) list" where
  "addCandidate acc (k, s) =
     (case map_of acc k of
        None \<Rightarrow> acc @ [(k, s)]
      | Some s' \<Rightarrow> if s' < s then AList.update k s acc else acc)"

definition dedupePairs :: "(('a \<times> 'a) \<times> real) list \<Rightarrow> (('a \<times> 'a) \<times> real) list" where
  "dedupePairs cs = foldl addCandidate [] cs"

text \<open>
  Modelled from the spec: step 5 of the missing builder.  More than \<open>maxEdges\<close> pairs are
  cut to the \<open>maxEdges\<close> strongest.
\<close>

definition capEdges :: "nat \<Rightarrow> (('a \<times> 'a) \<times> real) list \<Rightarrow> (('a \<times> 'a) \<times> real) list" where
  "capEdges n ps = (if n < length ps then take n (sort_key (\<lambda>(k, s). - s) ps) else ps)"

text \<open>
  Modelled from the spec: step 6 of the missing builder, and the whole of it.  Every
  surviving pair is emitted as one \<open>semantic_related\<close> edge whose weight is the
  similarity.
\<close>

definition buildSemanticEdges ::
  "SemanticEdges \<Rightarrow> ('a::linorder \<Rightarrow> bool) \<Rightarrow> ('a \<Rightarrow> 'a \<Rightarrow> real) \<Rightarrow> 'a list \<Rightarrow> 'a Edge list"
  where
  "buildSemanticEdges cfg embeds similarity nodes =
     map (\<lambda>((a, b), s). \<lparr>edge_from = a, edge_to = b, relation = semantic_related, weight = s\<rparr>)
       (capEdges (maxEdges cfg)
          (dedupePairs (candidatePairs cfg similarity (filter embeds nodes))))"

section \<open>Properties of the progress manager\<close>

subsection \<open>Reading the map after each operation\<close>

lemma getProgress_createJob:
  "getProgress k (createJob jobId now m) =
     (if k = jobId
      then Some \<lparr>progress = Finite 0, status = ''Starting...'', phase = ''init'', createdAt = now\<rparr>
      else getProgress k m)"
  by (simp add: getProgress_def createJob_def update_conv')

lemma getProgress_updateProgress:
  "getProgress k (updateProgress jobId p st ph m) =
     (case getProgress jobId m of
        None \<Rightarrow> getProgress k m
      | Some job \<Rightarrow>
          if k = jobId
          then Some \<lparr>progress = Math_max (progress job) (Math_min (Finite 100) p), status = st, phase = ph,
                     createdAt = createdAt job\<rparr>
          else getProgress k m)"
  by (simp add: getProgress_def updateProgress_def update_conv' Let_def split: option.splits)

lemma getProgress_completeJob:
  "getProgress k (completeJob jobId m) =
     (case getProgress jobId m of
        None \<Rightarrow> getProgress k m
      | Some job \<Rightarrow>
          if k = jobId
          then Some \<lparr>progress = Finite 100, status = ''Ready'', phase = ''complete'',
                     createdAt = createdAt job\<rparr>
          else getProgress k m)"
  by (simp add: getProgress_def completeJob_def update_conv' split: option.splits)

lemma getProgress_removeJob:
  "getProgress k (removeJob jobId m) = (if k = jobId then None else getProgress k m)"
  by (auto simp: getProgress_def removeJob_def delete_conv')

lemma cleanupLoop_lookup:
  "map_of (fst (cleanupLoop now es (js, n))) k =
     (if \<exists>job. (k, job) \<in> set es \<and> now - createdAt job > CLEANUP_AFTER_MS then None
      else map_of js k)"
proof (induction es arbitrary: js n)
  case Nil
  then show ?case by simp
next
  case (Cons e es)
  obtain jobId job where e: "e = (jobId, job)" by (cases e) auto
  show ?case
    by (auto simp: e Cons.IH delete_conv')
qed

lemma cleanupLoop_distinct:
  "distinct (map fst js) \<Longrightarrow> distinct (map fst (fst (cleanupLoop now es (js, n))))"
proof (induction es arbitrary: js n)
  case Nil
  then show ?case by simp
next
  case (Cons e es)
  obtain jobId job where e: "e = (jobId, job)" by (cases e) auto
  from Cons.prems show ?case
    by (auto simp: e intro!: Cons.IH distinct_delete)
qed

lemma getProgress_cleanupOldJobs:
  assumes "jobsDistinct m"
  shows "getProgress jobId (cleanupOldJobs now m) =
     (case getProgress jobId m of
        None \<Rightarrow> None
      | Some job \<Rightarrow> if now - createdAt job > CLEANUP_AFTER_MS then None else Some job)"
proof -
  have uniq: "(jobId, job) \<in> set (jobs m) \<longleftrightarrow> map_of (jobs m) jobId = Some job" for job
    using assms by (simp add: jobsDistinct_def)
  have "getProgress jobId (cleanupOldJobs now m) =
          map_of (fst (cleanupLoop now (jobs m) (jobs m, 0))) jobId"
    by (simp add: getProgress_def cleanupOldJobs_def split: prod.splits)
  also have "\<dots> = (if \<exists>job. (jobId, job) \<in> set (jobs m) \<and> now - createdAt job > CLEANUP_AFTER_MS
                    then None else map_of (jobs m) jobId)"
    by (rule cleanupLoop_lookup)
  also have "\<dots> = (case getProgress jobId m of
        None \<Rightarrow> None
      | Some job \<Rightarrow> if now - createdAt job > CLEANUP_AFTER_MS then None else Some job)"
    by (auto simp: uniq getProgress_def split: option.splits)
  finally show ?thesis .
qed

subsection \<open>The keys stay distinct\<close>

lemma jobsDistinct_new: "jobsDistinct newProgressManager"
  by (simp add: jobsDistinct_def newProgressManager_def)

lemma jobsDistinct_exec:
  assumes d: "jobsDistinct m"
  shows "jobsDistinct (exec c m)"
proof -
  obtain now cl where c: "c = (now, cl)" by (cases c) auto
  show ?thesis
  proof (cases cl)
    case (CreateJob jobId)
    with d c show ?thesis
      by (simp add: jobsDistinct_def createJob_def distinct_update)
  next
    case (UpdateProgress jobId p st ph)
    with d c show ?thesis
      by (simp add: jobsDistinct_def updateProgress_def distinct_update Let_def
          split: option.splits)
  next
    case (CompleteJob jobId)
    with d c show ?thesis
      by (simp add: jobsDistinct_def completeJob_def distinct_update split: option.splits)
  next
    case (RemoveJob jobId)
    with d c show ?thesis
      by (simp add: jobsDistinct_def removeJob_def distinct_delete)
  next
    case SweepTick
    with d c show ?thesis
      using cleanupLoop_distinct [of "jobs m" now "jobs m" 0]
      by (cases "cleanupLoop now (jobs m) (jobs m, 0)")
         (simp add: jobsDistinct_def cleanupOldJobs_def)
  qed
qed

lemma jobsDistinct_run: "jobsDistinct m \<Longrightarrow> jobsDistinct (run cs m)"
  by (induction cs arbitrary: m) (auto simp: jobsDistinct_exec simp del: exec.simps)

subsection \<open>Progress is clamped and monotonic, except for \<open>NaN\<close>\<close>

lemma in_range_iff:
  "number_le (Finite 0) x \<and> number_le x (Finite 100) \<longleftrightarrow>
     (\<exists>r. x = Finite r \<and> 0 \<le> r \<and> r \<le> 100)"
  by (cases x) auto

lemma clamp_step:
  assumes "0 \<le> r" "r \<le> 100" "p \<noteq> NaN"
  shows "\<exists>r'. Math_max (Finite r) (Math_min (Finite 100) p) = Finite r' \<and> r \<le> r' \<and> r' \<le> 100"
  using assms by (cases p) (auto simp: Math_max_def Math_min_def)

lemma updateProgress_step:
  assumes "getProgress k m = Some job" "progress job = Finite r" "0 \<le> r" "r \<le> 100"
    and "p \<noteq> NaN"
  shows "\<exists>job' r'. getProgress k (updateProgress jobId p st ph m) = Some job' \<and>
           progress job' = Finite r' \<and> r \<le> r' \<and> r' \<le> 100"
proof (cases "k = jobId")
  case True
  from clamp_step [OF assms(3,4,5)] obtain r' where
    "Math_max (Finite r) (Math_min (Finite 100) p) = Finite r'" "r \<le> r'" "r' \<le> 100"
    by blast
  with True assms(1,2) show ?thesis
    by (simp add: getProgress_updateProgress)
next
  case False
  with assms(1-4) show ?thesis
    by (auto simp: getProgress_updateProgress split: option.splits)
qed

lemma updateProgressCalls_mono:
  "getProgress k m = Some job \<Longrightarrow> progress job = Finite r \<Longrightarrow> 0 \<le> r \<Longrightarrow> r \<le> 100 \<Longrightarrow>
   \<forall>c\<in>set cs. fst (snd c) \<noteq> NaN \<Longrightarrow>
   \<exists>job' r'. getProgress k (updateProgressCalls cs m) = Some job' \<and>
          progress job' = Finite r' \<and> r \<le> r' \<and> r' \<le> 100"
proof (induction cs arbitrary: m job r)
  case Nil
  then show ?case by simp
next
  case (Cons c cs)
  obtain jobId p st ph where c: "c = (jobId, p, st, ph)"
    by (cases c) auto
  with Cons.prems(5) have p: "p \<noteq> NaN" and rest: "\<forall>c\<in>set cs. fst (snd c) \<noteq> NaN"
    by simp_all
  from updateProgress_step [OF Cons.prems(1-4) p, of jobId st ph]
  obtain j1 r1 where j1: "getProgress k (updateProgress jobId p st ph m) = Some j1"
    "progress j1 = Finite r1" "r \<le> r1" "r1 \<le> 100"
    by blast
  from j1(3) Cons.prems(3) have "0 \<le> r1" by simp
  from Cons.IH [OF j1(1,2) this j1(4) rest]
  obtain j2 r2 where j2:
    "getProgress k (updateProgressCalls cs (updateProgress jobId p st ph m)) = Some j2"
    "progress j2 = Finite r2" "r1 \<le> r2" "r2 \<le> 100"
    by blast
  from j1 j2 show ?case
    by (auto simp: c)
qed

lemma updateProgressCalls_append:
  "updateProgressCalls (cs @ ds) m = updateProgressCalls ds (updateProgressCalls cs m)"
  by (induction cs arbitrary: m) auto

lemma updateProgressCalls_range:
  assumes "\<forall>c\<in>set (cs @ ds). fst (snd c) \<noteq> NaN"
  shows "\<exists>a b. map_option progress
            (getProgress jobId (updateProgressCalls cs (createJob jobId now m0))) = Some a \<and>
          map_option progress
            (getProgress jobId (updateProgressCalls (cs @ ds) (createJob jobId now m0))) =
            Some b \<and>
          number_le (Finite 0) a \<and> number_le a b \<and> number_le b (Finite 100)"
proof -
  let ?m1 = "createJob jobId now m0"
  let ?j0 = "\<lparr>progress = Finite 0, status = ''Starting...'', phase = ''init'',
             createdAt = now\<rparr>"
  from assms have cs: "\<forall>c\<in>set cs. fst (snd c) \<noteq> NaN" and ds: "\<forall>c\<in>set ds. fst (snd c) \<noteq> NaN"
    by simp_all
  have start: "getProgress jobId ?m1 = Some ?j0"
    by (simp add: getProgress_createJob)
  have p0: "progress ?j0 = Finite 0" by simp
  from updateProgressCalls_mono [OF start p0 _ _ cs]
  obtain ja ra where ja: "getProgress jobId (updateProgressCalls cs ?m1) = Some ja"
    "progress ja = Finite ra" "0 \<le> ra" "ra \<le> 100"
    by auto
  from updateProgressCalls_mono [OF ja ds]
  obtain jb rb where jb:
    "getProgress jobId (updateProgressCalls ds (updateProgressCalls cs ?m1)) = Some jb"
    "progress jb = Finite rb" "ra \<le> rb" "rb \<le> 100"
    by blast
  from ja jb show ?thesis
    by (auto simp: updateProgressCalls_append)
qed

lemma updateProgress_NaN_sticks:
  "map_option progress
     (getProgress ''j1'' (updateProgress ''j1'' NaN ''x'' ''y'' (createJob ''j1'' now m0))) =
     Some NaN \<and>
   map_option progress
     (getProgress ''j1''
        (updateProgress ''j1'' (Finite 50) ''Answering'' ''answer''
           (updateProgress ''j1'' NaN ''x'' ''y'' (createJob ''j1'' now m0)))) = Some NaN"
  by (simp add: getProgress_updateProgress getProgress_createJob Math_max_def Math_min_def)

text \<open>
  Claim C1.  For a job that has a state, \<open>updateProgress(id, p, status, phase)\<close> stores
  the progress \<open>Math.max(currentProgress, Math.min(100, p))\<close>.  The consequence that the
  claim draws fails for one request: after \<open>createJob('j1')\<close> the call
  \<open>updateProgress('j1', NaN, 'x', 'y')\<close> stores \<open>NaN\<close>, which is not between 0 and 100, and
  a later request of 50 leaves \<open>NaN\<close> in place.  When no request of a sequence of
  \<open>updateProgress\<close> calls (for this or other job ids) is \<open>NaN\<close>, the stored progress after
  \<open>createJob(id)\<close> stays between 0 and 100 and is never lower after more calls (\<open>cs @ ds\<close>)
  than it was before them (\<open>cs\<close>).
\<close>

theorem updateProgress_clamp_and_NaN:
  "(\<forall>job. getProgress jobId m = Some job \<longrightarrow>
      map_option progress (getProgress jobId (updateProgress jobId p st ph m)) =
        Some (Math_max (progress job) (Math_min (Finite 100) p))) \<and>
   map_option progress
     (getProgress ''j1'' (updateProgress ''j1'' NaN ''x'' ''y'' (createJob ''j1'' now m0))) =
     Some NaN \<and>
   map_option progress
     (getProgress ''j1''
        (updateProgress ''j1'' (Finite 50) ''Answering'' ''answer''
           (updateProgress ''j1'' NaN ''x'' ''y'' (createJob ''j1'' now m0)))) = Some NaN \<and>
   \<not> number_le (Finite 0) NaN \<and> \<not> number_le NaN (Finite 100) \<and>
   ((\<forall>c\<in>set (cs @ ds). fst (snd c) \<noteq> NaN) \<longrightarrow>
    (\<exists>a b. map_option progress
            (getProgress jobId (updateProgressCalls cs (createJob jobId now m0))) = Some a \<and>
          map_option progress
            (getProgress jobId (updateProgressCalls (cs @ ds) (createJob jobId now m0))) =
            Some b \<and>
          number_le (Finite 0) a \<and> number_le a b \<and> number_le b (Finite 100)))"
proof (intro conjI impI)
  show "\<forall>job. getProgress jobId m = Some job \<longrightarrow>
      map_option progress (getProgress jobId (updateProgress jobId p st ph m)) =
        Some (Math_max (progress job) (Math_min (Finite 100) p))"
    by (simp add: getProgress_updateProgress)
next
  show "map_option progress
     (getProgress ''j1'' (updateProgress ''j1'' NaN ''x'' ''y'' (createJob ''j1'' now m0))) =
     Some NaN"
    using updateProgress_NaN_sticks by blast
next
  show "map_option progress
     (getProgress ''j1''
        (updateProgress ''j1'' (Finite 50) ''Answering'' ''answer''
           (updateProgress ''j1'' NaN ''x'' ''y'' (createJob ''j1'' now m0)))) = Some NaN"
    using updateProgress_NaN_sticks by blast
next
  show "\<not> number_le (Finite 0) NaN" by simp
next
  show "\<not> number_le NaN (Finite 100)" by simp
next
  assume "\<forall>c\<in>set (cs @ ds). fst (snd c) \<noteq> NaN"
  then show "\<exists>a b. map_option progress
            (getProgress jobId (updateProgressCalls cs (createJob jobId now m0))) = Some a \<and>
          map_option progress
            (getProgress jobId (updateProgressCalls (cs @ ds) (createJob jobId now m0))) =
            Some b \<and>
          number_le (Finite 0) a \<and> number_le a b \<and> number_le b (Finite 100)"
    by (rule updateProgressCalls_range)
qed

text \<open>
  The run of the specification: \<open>createJob("j1")\<close>, then a request of 50, then a request
  of 30, which leaves the progress at 50; a request of 250 is clamped to 100, and so is a
  request of \<open>Infinity\<close>.
\<close>

theorem updateProgress_clamp_and_NaN_witness:
  "getProgress ''j1'' (updateProgress ''j1'' (Finite 50) ''Answering'' ''answer''
      (createJob ''j1'' 7 newProgressManager)) =
     Some \<lparr>progress = Finite 50, status = ''Answering'', phase = ''answer'', createdAt = 7\<rparr> \<and>
   map_option progress
     (getProgress ''j1'' (updateProgress ''j1'' (Finite 30) ''x'' ''y''
        (updateProgress ''j1'' (Finite 50) ''Answering'' ''answer''
           (createJob ''j1'' 7 newProgressManager)))) = Some (Finite 50) \<and>
   map_option progress
     (getProgress ''j1'' (updateProgress ''j1'' (Finite 250) ''x'' ''y''
        (updateProgress ''j1'' (Finite 50) ''Answering'' ''answer''
           (createJob ''j1'' 7 newProgressManager)))) = Some (Finite 100) \<and>
   map_option progress
     (getProgress ''j1''
        (updateProgressCalls [(''j1'', Finite 50, ''Answering'', ''answer'')]
           (createJob ''j1'' 7 newProgressManager))) = Some (Finite 50) \<and>
   map_option progress
     (getProgress ''j1''
        (updateProgressCalls
           ([(''j1'', Finite 50, ''Answering'', ''answer'')] @
            [(''j1'', Finite 30, ''x'', ''y''), (''j1'', PlusInfinity, ''x'', ''y'')])
           (createJob ''j1'' 7 newProgressManager))) = Some (Finite 100)"
proof -
  let ?m = "updateProgress ''j1'' (Finite 50) ''Answering'' ''answer''
              (createJob ''j1'' 7 newProgressManager)"
  let ?cs = "[(''j1'', Finite 50, ''Answering'', ''answer'')]"
  let ?ds = "[(''j1'', Finite 30, ''x'', ''y''), (''j1'', PlusInfinity, ''x'', ''y'')]"
  have g: "getProgress ''j1'' ?m =
     Some \<lparr>progress = Finite 50, status = ''Answering'', phase = ''answer'', createdAt = 7\<rparr>"
    by (simp add: getProgress_def createJob_def updateProgress_def newProgressManager_def
        Let_def Math_max_def Math_min_def)
  have n: "\<forall>c\<in>set (?cs @ ?ds). fst (snd c) \<noteq> NaN"
    by simp
  have a: "map_option progress
     (getProgress ''j1'' (updateProgressCalls ?cs (createJob ''j1'' 7 newProgressManager))) =
     Some (Finite 50)"
    by (simp add: getProgress_updateProgress getProgress_createJob Math_max_def Math_min_def)
  have b: "map_option progress
     (getProgress ''j1''
        (updateProgressCalls (?cs @ ?ds) (createJob ''j1'' 7 newProgressManager))) =
     Some (Finite 100)"
    by (simp add: getProgress_updateProgress getProgress_createJob Math_max_def Math_min_def)
  from updateProgress_clamp_and_NaN
         [of "''j1''" ?m "Finite 30" "''x''" "''y''" 7 newProgressManager ?cs ?ds]
       updateProgress_clamp_and_NaN
         [of "''j1''" ?m "Finite 250" "''x''" "''y''" 7 newProgressManager ?cs ?ds]
       g n a b
  show ?thesis
    by (simp add: Math_max_def Math_min_def)
qed

subsection \<open>Completing a job\<close>

text \<open>
  Claim C6.  For a job that has a state, \<open>completeJob(id)\<close> leaves the state
  \<open>{progress: 100, status: 'Ready', phase: 'complete'}\<close> (with the creation time it had),
  whatever the progress, status and phase were.
\<close>

theorem completeJob_forces_ready:
  "getProgress jobId m = Some job \<Longrightarrow>
   getProgress jobId (completeJob jobId m) =
     Some \<lparr>progress = Finite 100, status = ''Ready'', phase = ''complete'',
           createdAt = createdAt job\<rparr>"
  by (simp add: getProgress_completeJob)

theorem completeJob_forces_ready_witness:
  "getProgress ''j1'' (updateProgress ''j1'' (Finite 50) ''Answering'' ''answer''
      (createJob ''j1'' 7 newProgressManager)) =
     Some \<lparr>progress = Finite 50, status = ''Answering'', phase = ''answer'', createdAt = 7\<rparr> \<and>
   getProgress ''j1''
     (completeJob ''j1'' (updateProgress ''j1'' (Finite 50) ''Answering'' ''answer''
        (createJob ''j1'' 7 newProgressManager))) =
     Some \<lparr>progress = Finite 100, status = ''Ready'', phase = ''complete'', createdAt = 7\<rparr>"
proof -
  have g: "getProgress ''j1'' (updateProgress ''j1'' (Finite 50) ''Answering'' ''answer''
      (createJob ''j1'' 7 newProgressManager)) =
     Some \<lparr>progress = Finite 50, status = ''Answering'', phase = ''answer'', createdAt = 7\<rparr>"
    by (simp add: getProgress_def createJob_def updateProgress_def newProgressManager_def
        Let_def Math_max_def Math_min_def)
  from completeJob_forces_ready [OF g] g show ?thesis by simp
qed

subsection \<open>Unknown job ids\<close>

text \<open>
  Claim C8.  For a job id that is not a key of the map, \<open>updateProgress\<close> and
  \<open>completeJob\<close> return normally (the functions have no failing branch), leave the job map
  as it is and add exactly one warning to the console; \<open>getProgress\<close> returns \<open>null\<close>
  (\<^const>\<open>None\<close>).
\<close>

theorem unknown_job_is_noop:
  "jobId \<notin> fst ` set (jobs m) \<Longrightarrow>
   updateProgress jobId p st ph m =
     m\<lparr>console := console m @ [Warn (''[ProgressManager] Job not found: '' @ jobId)]\<rparr> \<and>
   completeJob jobId m =
     m\<lparr>console := console m @
          [Warn (''[ProgressManager] Cannot complete - job not found: '' @ jobId)]\<rparr> \<and>
   jobs (updateProgress jobId p st ph m) = jobs m \<and>
   jobs (completeJob jobId m) = jobs m \<and>
   getProgress jobId m = None"
proof -
  assume "jobId \<notin> fst ` set (jobs m)"
  then have none: "map_of (jobs m) jobId = None"
    by (simp add: map_of_eq_None_iff)
  then show ?thesis
    by (simp add: updateProgress_def completeJob_def getProgress_def)
qed

theorem unknown_job_is_noop_witness:
  "''ghost'' \<notin> fst ` set (jobs (createJob ''j1'' 7 newProgressManager)) \<and>
   jobs (updateProgress ''ghost'' (Finite 40) ''x'' ''y'' (createJob ''j1'' 7 newProgressManager)) =
     jobs (createJob ''j1'' 7 newProgressManager) \<and>
   jobs (completeJob ''ghost'' (createJob ''j1'' 7 newProgressManager)) =
     jobs (createJob ''j1'' 7 newProgressManager) \<and>
   console (updateProgress ''ghost'' (Finite 40) ''x'' ''y'' (createJob ''j1'' 7 newProgressManager)) =
     [Log ''[ProgressManager] Created job: j1'', Warn ''[ProgressManager] Job not found: ghost''] \<and>
   getProgress ''ghost'' (createJob ''j1'' 7 newProgressManager) = None"
proof -
  have u: "''ghost'' \<notin> fst ` set (jobs (createJob ''j1'' 7 newProgressManager))"
    by (simp add: createJob_def newProgressManager_def)
  from unknown_job_is_noop [OF u, of "Finite 40" "''x''" "''y''"] u show ?thesis
    by (simp add: createJob_def newProgressManager_def)
qed

subsection \<open>The sweep\<close>

lemma run_snoc: "run (cs @ [c]) m = exec c (run cs m)"
  by (induction cs arbitrary: m) auto

lemma lastCreated_snoc:
  "lastCreated k (cs @ [(t, c)]) = (if c = CreateJob k then Some t else lastCreated k cs)"
  by (induction cs) (auto split: option.splits)

lemma createdAt_is_lastCreated:
  "getProgress k (run tr newProgressManager) = Some job \<Longrightarrow>
   lastCreated k tr = Some (createdAt job)"
proof (induction tr arbitrary: job rule: rev_induct)
  case Nil
  then show ?case by (simp add: getProgress_def newProgressManager_def)
next
  case (snoc c tr)
  obtain now cl where c: "c = (now, cl)" by (cases c) auto
  let ?m = "run tr newProgressManager"
  have d: "jobsDistinct ?m"
    by (simp add: jobsDistinct_run jobsDistinct_new)
  from snoc.prems have g: "getProgress k (exec (now, cl) ?m) = Some job"
    by (simp add: run_snoc c)
  show ?case
  proof (cases cl)
    case (CreateJob jobId)
    with g snoc.IH show ?thesis
      by (auto simp: c lastCreated_snoc getProgress_createJob split: if_splits)
  next
    case (UpdateProgress jobId p st ph)
    with g snoc.IH show ?thesis
      by (auto simp: c lastCreated_snoc getProgress_updateProgress
          split: if_splits option.splits)
  next
    case (CompleteJob jobId)
    with g snoc.IH show ?thesis
      by (auto simp: c lastCreated_snoc getProgress_completeJob
          split: if_splits option.splits)
  next
    case (RemoveJob jobId)
    with g snoc.IH show ?thesis
      by (auto simp: c lastCreated_snoc getProgress_removeJob split: if_splits)
  next
    case SweepTick
    with g snoc.IH show ?thesis
      by (auto simp: c lastCreated_snoc getProgress_cleanupOldJobs [OF d]
          split: if_splits option.splits)
  qed
qed

text \<open>
  Claim C5, as the code has it.  The sweep compares the clock with \<open>createdAt\<close>, and
  \<open>createdAt\<close> is the reading of the job's last \<open>createJob\<close>: \<open>updateProgress\<close> copies it.
  After any run of the manager, a sweep tick at \<open>now\<close> keeps exactly the jobs whose state
  exists and was created at most \<open>CLEANUP_AFTER_MS\<close> before \<open>now\<close>, unchanged, and
  \<open>getProgress\<close> returns \<open>null\<close> for every job created longer ago.
\<close>

theorem sweep_keeps_by_creation_time:
  "getProgress jobId (cleanupOldJobs now (run tr newProgressManager)) =
     (case getProgress jobId (run tr newProgressManager) of
        None \<Rightarrow> None
      | Some job \<Rightarrow> if now - createdAt job > CLEANUP_AFTER_MS then None else Some job) \<and>
   (\<forall>job. getProgress jobId (run tr newProgressManager) = Some job \<longrightarrow>
      lastCreated jobId tr = Some (createdAt job))"
  by (simp add: getProgress_cleanupOldJobs jobsDistinct_run jobsDistinct_new
      createdAt_is_lastCreated)

theorem sweep_keeps_by_creation_time_witness:
  "getProgress ''j1'' (run [(1000, CreateJob ''j1'')] newProgressManager) =
     Some \<lparr>progress = Finite 0, status = ''Starting...'', phase = ''init'', createdAt = 1000\<rparr> \<and>
   lastCreated ''j1'' [(1000, CreateJob ''j1'')] = Some 1000 \<and>
   getProgress ''j1''
     (cleanupOldJobs 301000 (run [(1000, CreateJob ''j1'')] newProgressManager)) =
     Some \<lparr>progress = Finite 0, status = ''Starting...'', phase = ''init'', createdAt = 1000\<rparr> \<and>
   getProgress ''j1''
     (cleanupOldJobs 301001 (run [(1000, CreateJob ''j1'')] newProgressManager)) = None"
proof -
  have g: "getProgress ''j1'' (run [(1000, CreateJob ''j1'')] newProgressManager) =
     Some \<lparr>progress = Finite 0, status = ''Starting...'', phase = ''init'', createdAt = 1000\<rparr>"
    by (simp add: getProgress_def createJob_def newProgressManager_def)
  from sweep_keeps_by_creation_time [of "''j1''" 301000 "[(1000, CreateJob ''j1'')]"]
       sweep_keeps_by_creation_time [of "''j1''" 301001 "[(1000, CreateJob ''j1'')]"] g
  show ?thesis
    by (simp add: CLEANUP_AFTER_MS_def)
qed

text \<open>
  Claim C5, as it is stated, fails.  A job is created at 1000 and updated at 359000; the
  sweep tick at 360000 comes 1000 ms after the update, well within the retention window
  of 300000 ms, and the job is gone.
\<close>

theorem sweep_drops_recently_updated_job:
  "lastTouched ''j1''
     [(1000, CreateJob ''j1''), (359000, UpdateProgress ''j1'' (Finite 50) ''Answering'' ''answer'')] =
     Some 359000 \<and>
   360000 - 359000 \<le> CLEANUP_AFTER_MS \<and>
   getProgress ''j1''
     (run [(1000, CreateJob ''j1''), (359000, UpdateProgress ''j1'' (Finite 50) ''Answering'' ''answer'')]
        newProgressManager) =
     Some \<lparr>progress = Finite 50, status = ''Answering'', phase = ''answer'', createdAt = 1000\<rparr> \<and>
   getProgress ''j1''
     (run [(1000, CreateJob ''j1''), (359000, UpdateProgress ''j1'' (Finite 50) ''Answering'' ''answer''),
           (360000, SweepTick)]
        newProgressManager) = None"
  by (simp add: getProgress_def createJob_def updateProgress_def cleanupOldJobs_def
      newProgressManager_def CLEANUP_AFTER_MS_def Let_def Math_max_def Math_min_def)

section \<open>Properties of the density configuration\<close>

lemma validateDensityLevel_cases:
  "validateDensityLevel v =
     (if v = JStr ''low'' then Low else if v = JStr ''high'' then High else Medium)"
  by (cases v) (auto simp: validateDensityLevel_def asDensityLevel_def DEFAULT_DENSITY_def)

text \<open>
  Claim C2.  \<open>getDensityConfig('low')\<close> is exactly the record of the claim, and
  \<open>'medium'\<close> and \<open>'high'\<close> give the documented tables.  A missing level gives the
  \<open>'medium'\<close> preset, and so does every value that is not one of the three names, which
  \<open>validateDensityLevel\<close> resolves to \<open>'medium'\<close>; the three names resolve to themselves.
  Both functions are total: resolving never fails.
\<close>

theorem getDensityConfig_presets:
  "getDensityConfig (Some Low) =
     \<lparr>exaNumResults = 6,
      directSourcesPerBlock = \<lparr>min_sources = 1, target = 2, max_sources = 4\<rparr>,
      secondarySources = \<lparr>topSourcesToProcess = 3, conceptsPerSource = 2, maxTotalConcepts = 15\<rparr>,
      semanticEdges = \<lparr>minSimilarity = 65 / 100, topK = 4, maxEdges = 40\<rparr>\<rparr> \<and>
   getDensityConfig (Some Medium) =
     \<lparr>exaNumResults = 10,
      directSourcesPerBlock = \<lparr>min_sources = 1, target = 4, max_sources = 6\<rparr>,
      secondarySources = \<lparr>topSourcesToProcess = 5, conceptsPerSource = 3, maxTotalConcepts = 30\<rparr>,
      semanticEdges = \<lparr>minSimilarity = 60 / 100, topK = 6, maxEdges = 80\<rparr>\<rparr> \<and>
   getDensityConfig (Some High) =
     \<lparr>exaNumResults = 12,
      directSourcesPerBlock = \<lparr>min_sources = 1, target = 5, max_sources = 8\<rparr>,
      secondarySources = \<lparr>topSourcesToProcess = 8, conceptsPerSource = 4, maxTotalConcepts = 40\<rparr>,
      semanticEdges = \<lparr>minSimilarity = 55 / 100, topK = 8, maxEdges = 120\<rparr>\<rparr> \<and>
   getDensityConfig None = getDensityConfig (Some Medium) \<and>
   (\<forall>v. v \<notin> {JStr ''low'', JStr ''medium'', JStr ''high''} \<longrightarrow>
      validateDensityLevel v = Medium \<and>
      getDensityConfig (Some (validateDensityLevel v)) = getDensityConfig (Some Medium)) \<and>
   validateDensityLevel (JStr ''low'') = Low \<and>
   validateDensityLevel (JStr ''medium'') = Medium \<and>
   validateDensityLevel (JStr ''high'') = High"
  by (simp add: getDensityConfig_def DEFAULT_DENSITY_def validateDensityLevel_cases)

theorem getDensityConfig_presets_witness:
  "JStr ''ultra'' \<notin> {JStr ''low'', JStr ''medium'', JStr ''high''} \<and>
   JUndefined \<notin> {JStr ''low'', JStr ''medium'', JStr ''high''} \<and>
   validateDensityLevel (JStr ''ultra'') = Medium \<and>
   validateDensityLevel JUndefined = Medium \<and>
   exaNumResults (getDensityConfig (Some (validateDensityLevel (JStr ''ultra'')))) = 10 \<and>
   topK (semanticEdges (getDensityConfig (Some (validateDensityLevel JUndefined)))) = 6"
proof -
  have u: "JStr ''ultra'' \<notin> {JStr ''low'', JStr ''medium'', JStr ''high''}"
    and n: "JUndefined \<notin> {JStr ''low'', JStr ''medium'', JStr ''high''}"
    by simp_all
  from getDensityConfig_presets u n show ?thesis
    by simp
qed

subsection \<open>The inferred level is a threshold on an additive score\<close>

lemma score_accumulation:
  fixes w20 w10 m mp l :: bool and b :: int
  shows "(let score = (0 :: int);
          score = (if w20 then score + 2 else if w10 then score + 1 else score);
          score = (if m then score + 2 else score);
          score = (if mp then score + 1 else score);
          score = (if l then score + 1 else score);
          score = score + b
      in if score \<ge> 4 then High else if score \<ge> 2 then Medium else Low) =
     (if 4 \<le> (if w20 then 2 else if w10 then 1 else 0) + (if m then 2 else 0) +
             (if mp then 1 else 0) + (if l then 1 else 0) + b then High
      else if 2 \<le> (if w20 then 2 else if w10 then 1 else 0) + (if m then 2 else 0) +
             (if mp then 1 else 0) + (if l then 1 else 0) + b then Medium
      else Low)"
  by (cases w20; cases w10; cases m; cases mp; cases l) (simp_all add: Let_def)

lemma inferDensityLevel_spec_score:
  "inferDensityLevel question answerBlockCount =
     (if spec_score question answerBlockCount \<ge> 4 then High
      else if spec_score question answerBlockCount \<ge> 2 then Medium else Low)"
proof -
  define b :: int where
    "b = (case answerBlockCount of None \<Rightarrow> 0
          | Some n \<Rightarrow> if n \<ge> 6 then 2 else if n \<ge> 4 then 1 else 0)"
  have last_step: "(case answerBlockCount of None \<Rightarrow> score
          | Some n \<Rightarrow> if n \<ge> 6 then score + 2 else if n \<ge> 4 then score + 1 else score) =
        score + b" for score :: int
    by (simp add: b_def split: option.splits)
  have "inferDensityLevel question answerBlockCount =
     (let score = (0 :: int);
          score = (if questionWords question > 20 then score + 2
                   else if questionWords question > 10 then score + 1 else score);
          score = (if questionMarks question > 1 then score + 2 else score);
          score = (if hasMultiPartIndicators question then score + 1 else score);
          score = (if hasListIndicators question then score + 1 else score);
          score = score + b
      in if score \<ge> 4 then High else if score \<ge> 2 then Medium else Low)"
    unfolding inferDensityLevel_def last_step ..
  also have "\<dots> =
     (if 4 \<le> (if questionWords question > 20 then 2
                else if questionWords question > 10 then 1 else 0) +
             (if questionMarks question > 1 then 2 else 0) +
             (if hasMultiPartIndicators question then 1 else 0) +
             (if hasListIndicators question then 1 else 0) + b then High
      else if 2 \<le> (if questionWords question > 20 then 2
                else if questionWords question > 10 then 1 else 0) +
             (if questionMarks question > 1 then 2 else 0) +
             (if hasMultiPartIndicators question then 1 else 0) +
             (if hasListIndicators question then 1 else 0) + b then Medium
      else Low)"
    by (rule score_accumulation)
  also have "\<dots> = (if spec_score question answerBlockCount \<ge> 4 then High
      else if spec_score question answerBlockCount \<ge> 2 then Medium else Low)"
    unfolding spec_score_def b_def ..
  finally show ?thesis .
qed

text \<open>
  Claim C3.  \<open>inferDensityLevel\<close> is a function of the question and the optional block
  count; its result is \<open>'high'\<close> exactly when the additive score is at least 4, \<open>'medium'\<close>
  exactly when the score is 2 or 3, and \<open>'low'\<close> exactly when it is below 2.  In
  particular a question of 25 words with two question marks and a list indicator, with
  \<open>answerBlockCount = 6\<close>, resolves to \<open>'high'\<close>.
\<close>

theorem inferDensityLevel_additive_score:
  "(inferDensityLevel question answerBlockCount = High \<longleftrightarrow>
      4 \<le> spec_score question answerBlockCount) \<and>
   (inferDensityLevel question answerBlockCount = Medium \<longleftrightarrow>
      2 \<le> spec_score question answerBlockCount \<and> spec_score question answerBlockCount < 4) \<and>
   (inferDensityLevel question answerBlockCount = Low \<longleftrightarrow>
      spec_score question answerBlockCount < 2) \<and>
   (questionWords question = 25 \<and> questionMarks question = 2 \<and> hasListIndicators question \<longrightarrow>
      inferDensityLevel question (Some 6) = High)"
proof -
  have "questionWords question = 25 \<and> questionMarks question = 2 \<and> hasListIndicators question \<longrightarrow>
      4 \<le> spec_score question (Some 6)"
    by (simp add: spec_score_def)
  then show ?thesis
    by (simp add: inferDensityLevel_spec_score)
qed


theorem inferDensityLevel_additive_score_witness:
  "questionWords ''What are the types of AI? Can you list one for me and say why it is good or bad to do so right now?'' = 25 \<and>
   questionMarks ''What are the types of AI? Can you list one for me and say why it is good or bad to do so right now?'' = 2 \<and>
   hasListIndicators ''What are the types of AI? Can you list one for me and say why it is good or bad to do so right now?'' \<and>
   inferDensityLevel ''What are the types of AI? Can you list one for me and say why it is good or bad to do so right now?'' (Some 6) = High"
proof -
  let ?q = "''What are the types of AI? Can you list one for me and say why it is good or bad to do so right now?''"
  have w: "questionWords ?q = 25"
    by (simp add: questionWords_def splitWhiteSpace_def trim_def isWhiteSpace_def)
  have m: "questionMarks ?q = 2"
    by (simp add: questionMarks_def)
  have l: "hasListIndicators ?q"
    by (simp add: hasListIndicators_def regexTest_def matchHere_def wordBoundary_def
        isWordChar_def canonicalize_def)
  from inferDensityLevel_additive_score [of ?q "Some 6"] w m l show ?thesis
    by blast
qed

section \<open>Properties of the concept extraction\<close>

subsection \<open>Validation of the collaborator's answer\<close>

lemma typeof_string_iff: "typeof v = ''string'' \<longleftrightarrow> (\<exists>s. v = JStr s)"
  by (cases v) auto

lemma typeof_number_iff: "typeof v = ''number'' \<longleftrightarrow> (\<exists>x. v = JNum x)"
  by (cases v) auto

lemma validateLoop_acc:
  "validateLoop cs acc = acc @ map toConcept (filter keptElement cs)"
  by (induction cs arbitrary: acc) (auto simp: keptElement_def toConcept_def Let_def)

lemma keptElement_iff:
  "keptElement c \<longleftrightarrow>
     (\<exists>kvs t x. c = JObj kvs \<and> map_of kvs ''title'' = Some (JStr t) \<and>
                map_of kvs ''text'' = Some (JStr x))"
proof
  assume k: "keptElement c"
  then obtain kvs where c: "c = JObj kvs"
    by (cases c) (auto simp: keptElement_def)
  from k c have "typeof (getProp (JObj kvs) ''title'') = ''string''"
    and "typeof (getProp (JObj kvs) ''text'') = ''string''"
    by (simp_all add: keptElement_def)
  then obtain t x where
    "map_of kvs ''title'' = Some (JStr t)" "map_of kvs ''text'' = Some (JStr x)"
    by (auto split: option.splits elim!: typeof.elims)
  with c show "\<exists>kvs t x. c = JObj kvs \<and> map_of kvs ''title'' = Some (JStr t) \<and>
                map_of kvs ''text'' = Some (JStr x)"
    by blast
next
  assume "\<exists>kvs t x. c = JObj kvs \<and> map_of kvs ''title'' = Some (JStr t) \<and>
                map_of kvs ''text'' = Some (JStr x)"
  then show "keptElement c"
    by (auto simp: keptElement_def)
qed

lemma toConcept_fields:
  assumes "map_of kvs ''title'' = Some (JStr t)" and "map_of kvs ''text'' = Some (JStr x)"
  shows "toConcept (JObj kvs) =
     \<lparr>concept_title = t, concept_text = x,
      short_label = (case map_of kvs ''short_label'' of Some (JStr l) \<Rightarrow> l | _ \<Rightarrow> t),
      importance = (case map_of kvs ''importance'' of Some (JNum n) \<Rightarrow> Some n | _ \<Rightarrow> None)\<rparr>"
  using assms
  by (auto simp: toConcept_def typeof_string_iff typeof_number_iff
      split: option.splits jsval.splits)

text \<open>
  Claim C4, as the code has it.  When the \<open>concepts\<close> field of the answer is an array,
  validation returns normally, and its result is the list of the kept elements, in
  order, each converted on its own: an element that is dropped changes nothing else.
  An element is kept exactly when it is an object whose \<open>title\<close> and \<open>text\<close> are strings
  (empty strings included).  For a kept element \<open>short_label\<close> is the element's
  \<open>short_label\<close> when that is a string and the \<open>title\<close> otherwise, and \<open>importance\<close> is the
  element's \<open>importance\<close> when that is a number and \<open>undefined\<close> otherwise.
\<close>

theorem validateConceptsResponse_keeps_typed_elements:
  "(getProp response ''concepts'' = JArr cs \<longrightarrow>
      validateConceptsResponse response = Inr (map toConcept (filter keptElement cs))) \<and>
   (keptElement c \<longleftrightarrow>
      (\<exists>kvs t x. c = JObj kvs \<and> map_of kvs ''title'' = Some (JStr t) \<and>
                 map_of kvs ''text'' = Some (JStr x))) \<and>
   (map_of kvs ''title'' = Some (JStr t) \<and> map_of kvs ''text'' = Some (JStr x) \<longrightarrow>
      toConcept (JObj kvs) =
        \<lparr>concept_title = t, concept_text = x,
         short_label = (case map_of kvs ''short_label'' of Some (JStr l) \<Rightarrow> l | _ \<Rightarrow> t),
         importance =
           (case map_of kvs ''importance'' of Some (JNum n) \<Rightarrow> Some n | _ \<Rightarrow> None)\<rparr>)"
proof (intro conjI impI)
  assume a: "getProp response ''concepts'' = JArr cs"
  then obtain r where r: "response = JObj r"
    by (cases response) auto
  with a show "validateConceptsResponse response = Inr (map toConcept (filter keptElement cs))"
    by (simp add: validateConceptsResponse_def validateLoop_acc)
next
  show "keptElement c \<longleftrightarrow>
      (\<exists>kvs t x. c = JObj kvs \<and> map_of kvs ''title'' = Some (JStr t) \<and>
                 map_of kvs ''text'' = Some (JStr x))"
    by (rule keptElement_iff)
next
  assume "map_of kvs ''title'' = Some (JStr t) \<and> map_of kvs ''text'' = Some (JStr x)"
  then show "toConcept (JObj kvs) =
        \<lparr>concept_title = t, concept_text = x,
         short_label = (case map_of kvs ''short_label'' of Some (JStr l) \<Rightarrow> l | _ \<Rightarrow> t),
         importance =
           (case map_of kvs ''importance'' of Some (JNum n) \<Rightarrow> Some n | _ \<Rightarrow> None)\<rparr>"
    by (simp add: toConcept_fields)
qed

text \<open>
  A batch of six elements: a concept whose label and importance have the wrong types,
  \<open>null\<close>, a number, a string, an object whose title is a number, and a complete concept.
  The first and the last are kept.
\<close>

theorem validateConceptsResponse_keeps_typed_elements_witness:
  "getProp
     (JObj [(''concepts'',
        JArr [JObj [(''title'', JStr ''Neural nets''), (''text'', JStr ''Layers of units.''),
                    (''short_label'', JNum 1), (''importance'', JStr ''high'')],
              JNull, JNum 3, JStr ''x'',
              JObj [(''title'', JNum 5), (''text'', JStr ''b'')],
              JObj [(''title'', JStr ''A''), (''text'', JStr ''B''),
                    (''short_label'', JStr ''tag''), (''importance'', JNum (1 / 2))]])])
     ''concepts'' =
   JArr [JObj [(''title'', JStr ''Neural nets''), (''text'', JStr ''Layers of units.''),
               (''short_label'', JNum 1), (''importance'', JStr ''high'')],
         JNull, JNum 3, JStr ''x'',
         JObj [(''title'', JNum 5), (''text'', JStr ''b'')],
         JObj [(''title'', JStr ''A''), (''text'', JStr ''B''),
               (''short_label'', JStr ''tag''), (''importance'', JNum (1 / 2))]] \<and>
   validateConceptsResponse
     (JObj [(''concepts'',
        JArr [JObj [(''title'', JStr ''Neural nets''), (''text'', JStr ''Layers of units.''),
                    (''short_label'', JNum 1), (''importance'', JStr ''high'')],
              JNull, JNum 3, JStr ''x'',
              JObj [(''title'', JNum 5), (''text'', JStr ''b'')],
              JObj [(''title'', JStr ''A''), (''text'', JStr ''B''),
                    (''short_label'', JStr ''tag''), (''importance'', JNum (1 / 2))]])]) =
   Inr [\<lparr>concept_title = ''Neural nets'', concept_text = ''Layers of units.'',
         short_label = ''Neural nets'', importance = None\<rparr>,
        \<lparr>concept_title = ''A'', concept_text = ''B'', short_label = ''tag'',
         importance = Some (1 / 2)\<rparr>]"
proof -
  let ?cs = "[JObj [(''title'', JStr ''Neural nets''), (''text'', JStr ''Layers of units.''),
               (''short_label'', JNum 1), (''importance'', JStr ''high'')],
         JNull, JNum 3, JStr ''x'',
         JObj [(''title'', JNum 5), (''text'', JStr ''b'')],
         JObj [(''title'', JStr ''A''), (''text'', JStr ''B''),
               (''short_label'', JStr ''tag''), (''importance'', JNum (1 / 2))]]"
  have g: "getProp (JObj [(''concepts'', JArr ?cs)]) ''concepts'' = JArr ?cs"
    by simp
  have v: "map toConcept (filter keptElement ?cs) =
     [\<lparr>concept_title = ''Neural nets'', concept_text = ''Layers of units.'',
         short_label = ''Neural nets'', importance = None\<rparr>,
        \<lparr>concept_title = ''A'', concept_text = ''B'', short_label = ''tag'',
         importance = Some (1 / 2)\<rparr>]"
    by (simp add: keptElement_def toConcept_def)
  from validateConceptsResponse_keeps_typed_elements [of "JObj [(''concepts'', JArr ?cs)]" ?cs] g
  have "validateConceptsResponse (JObj [(''concepts'', JArr ?cs)]) =
          Inr (map toConcept (filter keptElement ?cs))"
    by blast
  with g v show ?thesis by simp
qed

text \<open>
  Claim C4, as it is stated, fails: an element whose \<open>title\<close> and \<open>text\<close> are the empty
  string is kept, since the loop tests the types only.
\<close>

theorem validateConceptsResponse_keeps_empty_strings:
  "validateConceptsResponse
     (JObj [(''concepts'', JArr [JObj [(''title'', JStr []), (''text'', JStr [])]])]) =
   Inr [\<lparr>concept_title = [], concept_text = [], short_label = [], importance = None\<rparr>]"
  by (simp add: validateConceptsResponse_def)

subsection \<open>Truncation of the content\<close>

lemma truncateContent_short:
  "length content_v \<le> maxChars \<Longrightarrow> truncateContent content_v maxChars = content_v"
  by (simp add: truncateContent_def)

lemma truncateContent_long:
  assumes "maxChars < length content_v"
  shows "\<exists>k\<le>maxChars. truncateContent content_v maxChars = take k content_v @ '' [...]'' \<or>
                      truncateContent content_v maxChars = take k content_v @ ''...''"
proof (cases "exceeds07 (lastIndexOf CHR ''.'' (take maxChars content_v)) maxChars")
  case True
  let ?lp = "lastIndexOf CHR ''.'' (take maxChars content_v)"
  have "truncateContent content_v maxChars =
          take (nat (?lp + 1)) (take maxChars content_v) @ '' [...]''"
    using assms True by (simp add: truncateContent_def Let_def)
  also have "take (nat (?lp + 1)) (take maxChars content_v) =
               take (min (nat (?lp + 1)) maxChars) content_v"
    by simp
  finally show ?thesis
    by (intro exI [of _ "min (nat (?lp + 1)) maxChars"]) simp
next
  case False
  with assms have "truncateContent content_v maxChars = take maxChars content_v @ ''...''"
    by (simp add: truncateContent_def Let_def)
  then show ?thesis
    by (intro exI [of _ maxChars]) simp
qed

text \<open>The rounding of the product, evaluated: \<open>2000 * 0.7\<close> is \<open>1400\<close>, \<open>90 * 0.7\<close> is below \<open>63\<close>.\<close>

lemma bitLength_numeral: "bitLength (numeral n) = Suc (bitLength (numeral n div 2))"
  by (subst bitLength.simps) simp

lemma bitLength_small: "bitLength 0 = 0" "bitLength 1 = 1" "bitLength (Suc 0) = 1"
  by (simp_all add: bitLength.simps)

lemma double_times07_2000: "roundToDouble (2000 * double07) = 1400 * 2 ^ 53"
  by (simp add: roundToDouble_def double07_def bitLength_numeral bitLength_small)

lemma double_times07_90: "roundToDouble (90 * double07) < 63 * 2 ^ 53"
  by (simp add: roundToDouble_def double07_def bitLength_numeral bitLength_small)

text \<open>
  Claim C10.  \<open>truncateContent(content, maxChars)\<close> returns \<open>content\<close> when it has at most
  \<open>maxChars\<close> characters; otherwise it returns the first \<open>k\<close> characters of \<open>content\<close>, for
  some \<open>k \<le> maxChars\<close>, followed by \<open>' [...]'\<close> or by \<open>'...'\<close>.  The prompt of
  \<open>buildExpandPrompt\<close> is the title, the URL, at most the first 2000 characters of the
  content, possibly a marker, and instructions that do not depend on the content.
\<close>

theorem truncateContent_bounds_prompt:
  "(length content_v \<le> maxChars \<longrightarrow> truncateContent content_v maxChars = content_v) \<and>
   (maxChars < length content_v \<longrightarrow>
      (\<exists>k\<le>maxChars. truncateContent content_v maxChars = take k content_v @ '' [...]'' \<or>
                    truncateContent content_v maxChars = take k content_v @ ''...'')) \<and>
   (\<exists>k\<le>2000. \<exists>marker. (marker = [] \<or> marker = '' [...]'' \<or> marker = ''...'') \<and>
      buildExpandPrompt source conceptCount =
        ''Source Title: '' @ title source @ [CHR 0x0A] @
        ''Source URL: '' @ url source @ [CHR 0x0A, CHR 0x0A] @
        ''Content:'' @ [CHR 0x0A] @
        take k (content source) @ marker @
        promptInstructions (string_of_nat conceptCount))"
proof (intro conjI impI)
  assume "length content_v \<le> maxChars"
  then show "truncateContent content_v maxChars = content_v"
    by (rule truncateContent_short)
next
  assume "maxChars < length content_v"
  then show "\<exists>k\<le>maxChars. truncateContent content_v maxChars = take k content_v @ '' [...]'' \<or>
                    truncateContent content_v maxChars = take k content_v @ ''...''"
    by (rule truncateContent_long)
next
  have "\<exists>k\<le>2000. \<exists>marker. (marker = [] \<or> marker = '' [...]'' \<or> marker = ''...'') \<and>
          truncateContent (content source) 2000 = take k (content source) @ marker"
  proof (cases "length (content source) \<le> 2000")
    case True
    then have "truncateContent (content source) 2000 =
                 take (length (content source)) (content source) @ []"
      by (simp add: truncateContent_short)
    with True show ?thesis by blast
  next
    case False
    then have "2000 < length (content source)" by simp
    from truncateContent_long [OF this] show ?thesis by blast
  qed
  then obtain k marker where km: "k \<le> 2000"
    "marker = [] \<or> marker = '' [...]'' \<or> marker = ''...''"
    "truncateContent (content source) 2000 = take k (content source) @ marker"
    by blast
  have "buildExpandPrompt source conceptCount =
        ''Source Title: '' @ title source @ [CHR 0x0A] @
        ''Source URL: '' @ url source @ [CHR 0x0A, CHR 0x0A] @
        ''Content:'' @ [CHR 0x0A] @
        take k (content source) @ marker @
        promptInstructions (string_of_nat conceptCount)"
    unfolding buildExpandPrompt_def Let_def km(3) by simp
  with km(1,2)
  show "\<exists>k\<le>2000. \<exists>marker. (marker = [] \<or> marker = '' [...]'' \<or> marker = ''...'') \<and>
      buildExpandPrompt source conceptCount =
        ''Source Title: '' @ title source @ [CHR 0x0A] @
        ''Source URL: '' @ url source @ [CHR 0x0A, CHR 0x0A] @
        ''Content:'' @ [CHR 0x0A] @
        take k (content source) @ marker @
        promptInstructions (string_of_nat conceptCount)"
    by blast
qed

text \<open>
  With a bound of 10: a text of 10 characters is returned as it is; a longer text
  with a full stop at index 8 is cut after the full stop; one with its last full stop at
  index 5 is cut at 10 characters.
\<close>

theorem truncateContent_bounds_prompt_witness:
  "length ''short text'' \<le> (10::nat) \<and>
   truncateContent ''short text'' 10 = ''short text'' \<and>
   (10::nat) < length ''Hello wo. rld this is long'' \<and>
   truncateContent ''Hello wo. rld this is long'' 10 =
     take 9 ''Hello wo. rld this is long'' @ '' [...]'' \<and>
   truncateContent ''Hello. World, this is long'' 10 =
     take 10 ''Hello. World, this is long'' @ ''...''"
proof -
  have s: "length ''short text'' \<le> (10::nat)" by simp
  have l: "(10::nat) < length ''Hello wo. rld this is long''" by simp
  have e1: "truncateContent ''Hello wo. rld this is long'' 10 = ''Hello wo. [...]''"
    by (simp add: truncateContent_def lastIndexOf_def exceeds07_def roundToDouble_def
        double07_def bitLength_numeral bitLength_small)
  have e2: "truncateContent ''Hello. World, this is long'' 10 = ''Hello. Wor...''"
    by (simp add: truncateContent_def lastIndexOf_def exceeds07_def roundToDouble_def
        double07_def bitLength_numeral bitLength_small)
  from truncateContent_bounds_prompt [of "''short text''" 10] s
  have e0: "truncateContent ''short text'' 10 = ''short text''" by blast
  from truncateContent_bounds_prompt [of "''Hello wo. rld this is long''" 10] l
  have "\<exists>k\<le>10. truncateContent ''Hello wo. rld this is long'' 10 =
                  take k ''Hello wo. rld this is long'' @ '' [...]'' \<or>
               truncateContent ''Hello wo. rld this is long'' 10 =
                  take k ''Hello wo. rld this is long'' @ ''...''"
    by blast
  with s l e0 e1 e2 show ?thesis by simp
qed

section \<open>Properties of the route\<close>

lemma extractionFailed_error:
  "getProp (body (extractionFailed requestStart now e)) ''error'' =
     JStr ''Concept extraction failed''"
  by (simp add: extractionFailed_def)

lemma handleExpandSource_never_empty_content:
  "getProp (body (fst (handleExpandSource env requestStart now reqBody))) ''error'' \<noteq>
     JStr ''Empty content''"
proof -
  let ?c = "getProp reqBody ''content''"
  have dead: "length (asString ?c) \<noteq> 0" if "truthy ?c" "typeof ?c = ''string''"
    using that by (auto simp: typeof_string_iff)
  show ?thesis
    unfolding handleExpandSource_def Let_def
    using dead
    by (auto simp: extractionFailed_error split: prod.splits sum.splits)
qed

lemma handleExpandSource_empty_content:
  \<open>handleExpandSource env requestStart now
     (JObj [(''title'', JStr ''T''), (''url'', JStr ''https://example.com''),
            (''content'', JStr [])]) =
     (\<lparr>statusCode = 400,
       body = JObj [(''error'', JStr ''Missing or invalid "content" field''),
                    (''message'',
                     JStr ''Request must include a string "content" field with the source text'')]\<rparr>,
      [])\<close>
  by (simp add: handleExpandSource_def)

lemma handleExpandSource_collaborator_failure:
  assumes "getProp reqBody ''title'' = JStr t" "t \<noteq> []"
    and "getProp reqBody ''url'' = JStr u" "u \<noteq> []"
    and "getProp reqBody ''content'' = JStr c" "c \<noteq> []"
    and "fst (expandSourceAgent env \<lparr>title = t, url = u, content = c\<rparr>
               (Some (validateDensityLevel (getProp reqBody ''densityLevel'')))) = Inl e"
  shows "fst (handleExpandSource env requestStart now reqBody) =
     \<lparr>statusCode = 500,
      body = JObj [(''error'', JStr ''Concept extraction failed''),
                   (''message'', JStr (errorMessage e)),
                   (''meta'', JObj [(''latencyMs'', JNum (of_int (now - requestStart)))])]\<rparr>"
proof -
  from assms(1) have nb: "reqBody \<noteq> JUndefined" "reqBody \<noteq> JNull"
    by auto
  obtain r calls where ag: "expandSourceAgent env \<lparr>title = t, url = u, content = c\<rparr>
               (Some (validateDensityLevel (getProp reqBody ''densityLevel''))) = (r, calls)"
    by (cases "expandSourceAgent env \<lparr>title = t, url = u, content = c\<rparr>
               (Some (validateDensityLevel (getProp reqBody ''densityLevel'')))") auto
  with assms(7) have r: "r = Inl e" by simp
  show ?thesis
    using nb assms(1-6) ag r
    by (simp add: handleExpandSource_def extractionFailed_def Let_def)
qed

text \<open>
  Claim C7.  The request \<open>{title: 'T', url: 'https://example.com', content: ''}\<close> is
  answered with status 400 and no prompt is sent to the Exa client, but the error is
  \<open>'Missing or invalid "content" field'\<close>: the empty string is falsy, so the guard
  \<open>!body.content\<close> returns first, and no request at all is answered with the error
  \<open>'Empty content'\<close> of the guard \<open>body.content.length === 0\<close> that follows it.  When
  \<open>title\<close>, \<open>url\<close> and \<open>content\<close> are non-empty strings and \<open>expandSourceAgent\<close> throws, the
  answer has status 500 and the body \<open>{error, message, meta: {latencyMs}}\<close>, with
  \<open>latencyMs\<close> the time elapsed since the start of the request.
\<close>

theorem handleExpandSource_error_responses:
  \<open>handleExpandSource env requestStart now
     (JObj [(''title'', JStr ''T''), (''url'', JStr ''https://example.com''),
            (''content'', JStr [])]) =
     (\<lparr>statusCode = 400,
       body = JObj [(''error'', JStr ''Missing or invalid "content" field''),
                    (''message'',
                     JStr ''Request must include a string "content" field with the source text'')]\<rparr>,
      []) \<and>
   getProp (body (fst (handleExpandSource env requestStart now reqBody))) ''error'' \<noteq>
     JStr ''Empty content'' \<and>
   (getProp reqBody ''title'' = JStr t \<and> t \<noteq> [] \<and>
    getProp reqBody ''url'' = JStr u \<and> u \<noteq> [] \<and>
    getProp reqBody ''content'' = JStr c \<and> c \<noteq> [] \<and>
    fst (expandSourceAgent env \<lparr>title = t, url = u, content = c\<rparr>
           (Some (validateDensityLevel (getProp reqBody ''densityLevel'')))) = Inl e \<longrightarrow>
    fst (handleExpandSource env requestStart now reqBody) =
      \<lparr>statusCode = 500,
       body = JObj [(''error'', JStr ''Concept extraction failed''),
                    (''message'', JStr (errorMessage e)),
                    (''meta'', JObj [(''latencyMs'', JNum (of_int (now - requestStart)))])]\<rparr>)\<close>
  using handleExpandSource_empty_content handleExpandSource_never_empty_content
    handleExpandSource_collaborator_failure
  by blast

text \<open>
  A request with all fields, 30 ms long, whose call of the Exa client throws
  \<open>Error('network down')\<close>.
\<close>

theorem handleExpandSource_error_responses_witness:
  "fst (handleExpandSource
          \<lparr>exaApiKey = Some ''key'', exaAnswer = (\<lambda>prompt. Inl (Err ''network down''))\<rparr>
          100 130
          (JObj [(''title'', JStr ''T''), (''url'', JStr ''https://example.com''),
                 (''content'', JStr ''Some text.'')])) =
     \<lparr>statusCode = 500,
      body = JObj [(''error'', JStr ''Concept extraction failed''),
                   (''message'', JStr ''Failed to extract concepts: network down''),
                   (''meta'', JObj [(''latencyMs'', JNum 30)])]\<rparr>"
proof -
  let ?env = "\<lparr>exaApiKey = Some ''key'', exaAnswer = (\<lambda>prompt. Inl (Err ''network down''))\<rparr>"
  let ?b = "JObj [(''title'', JStr ''T''), (''url'', JStr ''https://example.com''),
                 (''content'', JStr ''Some text.'')]"
  have a: "fst (expandSourceAgent ?env
                  \<lparr>title = ''T'', url = ''https://example.com'', content = ''Some text.''\<rparr>
                  (Some (validateDensityLevel (getProp ?b ''densityLevel'')))) =
             Inl (Err ''Failed to extract concepts: network down'')"
    by (simp add: expandSourceAgent_def keyConfigured_def errorMessage_def Let_def)
  have f: "getProp ?b ''title'' = JStr ''T''" "getProp ?b ''url'' = JStr ''https://example.com''"
    "getProp ?b ''content'' = JStr ''Some text.''"
    by simp_all
  from handleExpandSource_error_responses
         [of ?env 100 130 ?b "''T''" "''https://example.com''" "''Some text.''"
             "Err ''Failed to extract concepts: network down''"] a f
  show ?thesis
    by (simp add: errorMessage_def)
qed

section \<open>Properties of the semantic edge builder\<close>

lemma rankedNeighbours_sound:
  "(b, s) \<in> set (rankedNeighbours cfg similarity embedded a) \<Longrightarrow>
   b \<noteq> a \<and> minSimilarity cfg \<le> s"
  by (auto simp: rankedNeighbours_def dest!: in_set_takeD)

lemma candidatePairs_sound:
  "((a, b), s) \<in> set (candidatePairs cfg similarity embedded) \<Longrightarrow>
   a < b \<and> minSimilarity cfg \<le> s"
  by (auto simp: candidatePairs_def canonicalPair_def min_def max_def
      dest!: rankedNeighbours_sound split: if_splits)

lemma addCandidate_keys:
  "distinct (map fst acc) \<Longrightarrow> distinct (map fst (addCandidate acc c))"
  by (cases c) (auto simp: distinct_update map_of_eq_None_iff split: option.splits)

lemma set_update_subset: "set (AList.update k v al) \<subseteq> insert (k, v) (set al)"
  by (induction al) auto

lemma addCandidate_subset: "set (addCandidate acc c) \<subseteq> insert c (set acc)"
proof -
  obtain k s where c: "c = (k, s)" by (cases c) auto
  show ?thesis
  proof (cases "map_of acc k")
    case None
    with c show ?thesis by auto
  next
    case (Some s')
    with c set_update_subset [of k s acc] show ?thesis by auto
  qed
qed

lemma foldl_addCandidate:
  "distinct (map fst acc) \<Longrightarrow>
   distinct (map fst (foldl addCandidate acc cs)) \<and>
   set (foldl addCandidate acc cs) \<subseteq> set acc \<union> set cs"
proof (induction cs arbitrary: acc)
  case Nil
  then show ?case by simp
next
  case (Cons c cs)
  from Cons.prems have d: "distinct (map fst (addCandidate acc c))"
    by (rule addCandidate_keys)
  from Cons.IH [OF d] addCandidate_subset [of acc c] show ?case
    by auto
qed

lemma dedupePairs_keys: "distinct (map fst (dedupePairs cs))"
  using foldl_addCandidate [of "[]" cs] by (simp add: dedupePairs_def)

lemma dedupePairs_subset: "set (dedupePairs cs) \<subseteq> set cs"
  using foldl_addCandidate [of "[]" cs] by (simp add: dedupePairs_def)

lemma distinct_fst_sort_key:
  "distinct (map fst ps) \<Longrightarrow> distinct (map fst (sort_key f ps))"
  by (simp add: distinct_map)

lemma capEdges_keys: "distinct (map fst ps) \<Longrightarrow> distinct (map fst (capEdges n ps))"
  by (auto simp: capEdges_def take_map [symmetric] intro!: distinct_take distinct_fst_sort_key)

lemma capEdges_subset: "set (capEdges n ps) \<subseteq> set ps"
  by (auto simp: capEdges_def dest!: in_set_takeD)

lemma capEdges_length: "length (capEdges n ps) \<le> n"
  by (simp add: capEdges_def)

lemma unordered_pairs_distinct:
  fixes ps :: "(('a::linorder \<times> 'a) \<times> real) list"
  assumes "distinct (map fst ps)" and "\<forall>((a, b), s)\<in>set ps. a < b"
  shows "distinct (map (\<lambda>((a, b), s). {a, b}) ps)"
proof -
  have "inj_on (\<lambda>(a, b). {a, b}) (fst ` set ps)"
  proof (rule inj_onI)
    fix p q
    assume p: "p \<in> fst ` set ps" and q: "q \<in> fst ` set ps"
      and e: "(case p of (a, b) \<Rightarrow> {a, b}) = (case q of (a, b) \<Rightarrow> {a, b})"
    obtain a b c d where pq: "p = (a, b)" "q = (c, d)"
      by (cases p, cases q) auto
    from p q assms(2) pq have "a < b" "c < d"
      by force+
    with e pq show "p = q"
      by (auto simp: doubleton_eq_iff)
  qed
  with assms(1) have "distinct (map (\<lambda>(a, b). {a, b}) (map fst ps))"
    using distinct_map [of "\<lambda>(a, b). {a, b}" "map fst ps"] by simp
  then have "distinct (map ((\<lambda>(a, b). {a, b}) \<circ> fst) ps)"
    by (simp only: map_map)
  moreover have "(\<lambda>((a, b), s). {a, b}) = (\<lambda>(a, b). {a, b}) \<circ> (fst :: ('a \<times> 'a) \<times> real \<Rightarrow> _)"
    by (auto simp: fun_eq_iff)
  ultimately show ?thesis by simp
qed

text \<open>
  Claim C9.  Among the \<open>semantic_related\<close> edges that the builder emits for a graph, no
  two join the same unordered pair of nodes (so \<open>(a, b)\<close> and \<open>(b, a)\<close> never both appear),
  every edge has a weight of at least \<open>minSimilarity\<close>, no edge joins a node to itself,
  and there are at most \<open>maxEdges\<close> edges, for every density configuration and hence
  for the resolved one.
\<close>

theorem semantic_edges_invariants:
  "distinct (map (\<lambda>e. {edge_from e, edge_to e}) (buildSemanticEdges cfg embeds similarity nodes)) \<and>
   (\<forall>e\<in>set (buildSemanticEdges cfg embeds similarity nodes).
      relation e = semantic_related \<and> minSimilarity cfg \<le> weight e \<and> edge_from e \<noteq> edge_to e) \<and>
   length (buildSemanticEdges cfg embeds similarity nodes) \<le> maxEdges cfg"
proof -
  let ?cs = "candidatePairs cfg similarity (filter embeds nodes)"
  let ?ps = "capEdges (maxEdges cfg) (dedupePairs ?cs)"
  have sub: "set ?ps \<subseteq> set ?cs"
    using capEdges_subset dedupePairs_subset by fast
  then have sound: "a < b \<and> minSimilarity cfg \<le> s" if "((a, b), s) \<in> set ?ps" for a b s
    using that candidatePairs_sound by fast
  have keys: "distinct (map fst ?ps)"
    by (intro capEdges_keys dedupePairs_keys)
  have "distinct (map (\<lambda>((a, b), s). {a, b}) ?ps)"
    using keys sound by (intro unordered_pairs_distinct) auto
  moreover have "map (\<lambda>e. {edge_from e, edge_to e}) (buildSemanticEdges cfg embeds similarity nodes) =
                 map (\<lambda>((a, b), s). {a, b}) ?ps"
    by (auto simp: buildSemanticEdges_def case_prod_beta)
  ultimately have one: "distinct (map (\<lambda>e. {edge_from e, edge_to e})
                          (buildSemanticEdges cfg embeds similarity nodes))"
    by simp
  have two: "\<forall>e\<in>set (buildSemanticEdges cfg embeds similarity nodes).
      relation e = semantic_related \<and> minSimilarity cfg \<le> weight e \<and> edge_from e \<noteq> edge_to e"
    using sound by (fastforce simp: buildSemanticEdges_def)
  have three: "length (buildSemanticEdges cfg embeds similarity nodes) \<le> maxEdges cfg"
    by (simp add: buildSemanticEdges_def capEdges_length)
  from one two three show ?thesis by blast
qed


text \<open>
  Four nodes, of which node 4 has no embedding; nodes 1 and 2 have similarity 0.9,
  nodes 2 and 3 have 0.8, nodes 1 and 3 have 0.3.  With \<open>maxEdges = 5\<close> both strong pairs
  are emitted once; with \<open>maxEdges = 1\<close> only the stronger one.
\<close>

theorem semantic_edges_invariants_witness:
  "buildSemanticEdges \<lparr>minSimilarity = 1 / 2, topK = 2, maxEdges = 1\<rparr> (\<lambda>n. n \<noteq> 4)
     (\<lambda>a b. if (a = 1 \<and> b = 2) \<or> (a = 2 \<and> b = 1) then 9 / 10
            else if (a = 2 \<and> b = 3) \<or> (a = 3 \<and> b = 2) then 8 / 10
            else if a = 4 \<or> b = 4 then 1
            else 3 / 10)
     [1, 2, 3, 4 :: nat] =
     [\<lparr>edge_from = 1, edge_to = 2, relation = semantic_related, weight = 9 / 10\<rparr>] \<and>
   buildSemanticEdges \<lparr>minSimilarity = 1 / 2, topK = 2, maxEdges = 5\<rparr> (\<lambda>n. n \<noteq> 4)
     (\<lambda>a b. if (a = 1 \<and> b = 2) \<or> (a = 2 \<and> b = 1) then 9 / 10
            else if (a = 2 \<and> b = 3) \<or> (a = 3 \<and> b = 2) then 8 / 10
            else if a = 4 \<or> b = 4 then 1
            else 3 / 10)
     [1, 2, 3, 4 :: nat] =
     [\<lparr>edge_from = 1, edge_to = 2, relation = semantic_related, weight = 9 / 10\<rparr>,
      \<lparr>edge_from = 2, edge_to = 3, relation = semantic_related, weight = 8 / 10\<rparr>] \<and>
   length (buildSemanticEdges \<lparr>minSimilarity = 1 / 2, topK = 2, maxEdges = 1\<rparr> (\<lambda>n. n \<noteq> 4)
     (\<lambda>a b. if (a = 1 \<and> b = 2) \<or> (a = 2 \<and> b = 1) then 9 / 10
            else if (a = 2 \<and> b = 3) \<or> (a = 3 \<and> b = 2) then 8 / 10
            else if a = 4 \<or> b = 4 then 1
            else 3 / 10)
     [1, 2, 3, 4 :: nat]) \<le> 1"
proof -
  let ?sim = "\<lambda>a b :: nat. if (a = 1 \<and> b = 2) \<or> (a = 2 \<and> b = 1) then 9 / 10
            else if (a = 2 \<and> b = 3) \<or> (a = 3 \<and> b = 2) then 8 / 10
            else if a = 4 \<or> b = 4 then 1
            else (3 / 10 :: real)"
  have one: "buildSemanticEdges \<lparr>minSimilarity = 1 / 2, topK = 2, maxEdges = 1\<rparr> (\<lambda>n. n \<noteq> 4) ?sim
     [1, 2, 3, 4 :: nat] =
     [\<lparr>edge_from = 1, edge_to = 2, relation = semantic_related, weight = 9 / 10\<rparr>]"
    by (simp add: buildSemanticEdges_def capEdges_def dedupePairs_def candidatePairs_def
        rankedNeighbours_def canonicalPair_def)
  have five: "buildSemanticEdges \<lparr>minSimilarity = 1 / 2, topK = 2, maxEdges = 5\<rparr> (\<lambda>n. n \<noteq> 4) ?sim
     [1, 2, 3, 4 :: nat] =
     [\<lparr>edge_from = 1, edge_to = 2, relation = semantic_related, weight = 9 / 10\<rparr>,
      \<lparr>edge_from = 2, edge_to = 3, relation = semantic_related, weight = 8 / 10\<rparr>]"
    by (simp add: buildSemanticEdges_def capEdges_def dedupePairs_def candidatePairs_def
        rankedNeighbours_def canonicalPair_def)
  from semantic_edges_invariants
         [of "\<lparr>minSimilarity = 1 / 2, topK = 2, maxEdges = 1\<rparr>" "\<lambda>n. n \<noteq> 4" ?sim "[1, 2, 3, 4]"]
  have "length (buildSemanticEdges \<lparr>minSimilarity = 1 / 2, topK = 2, maxEdges = 1\<rparr>
                  (\<lambda>n. n \<noteq> 4) ?sim [1, 2, 3, 4 :: nat]) \<le> 1"
    by simp
  with one five show ?thesis by blast
qed

end
